theory Spec2Isabelle
  imports Complex_Main "HOL-Library.AList" "HOL-Library.Sublist"
begin

section \<open>Python values, errors and strings\<close>

text \<open>
  Exceptions of the Python source are values of \<open>error\<close>; a function that can raise
  returns \<open>error + 'a\<close>, with \<open>Inl\<close> for the exception.  \<open>KeyError\<close> and
  \<open>ValueError\<close> carry their argument.
\<close>

datatype error =
    KeyError string
  | ValueError string
  | TypeError
  | IndexError
  | UnboundLocalError
  | ConnectionError
  | JSONDecodeError

text \<open>\<open>sep.join(xs)\<close> of Python.\<close>

fun join :: "string \<Rightarrow> string list \<Rightarrow> string" where
  "join sep [] = []"
| "join sep [x] = x"
| "join sep (x # y # ys) = x @ sep @ join sep (y # ys)"

text \<open>
  \<open>s.split(sep)\<close> of Python for a non-empty separator: the string is scanned from the
  left, every occurrence of \<open>sep\<close> closes the current piece and the scan goes on behind
  the occurrence.  \<open>cur\<close> is the piece collected so far.
\<close>

fun split_on :: "string \<Rightarrow> string \<Rightarrow> string \<Rightarrow> string list" where
  "split_on sep cur [] = [cur]"
| "split_on sep cur (c # cs) =
     (if sep \<noteq> [] \<and> prefix sep (c # cs)
      then cur # split_on sep [] (drop (length sep) (c # cs))
      else split_on sep (cur @ [c]) cs)"

definition str_split :: "string \<Rightarrow> string \<Rightarrow> error + string list" where
  "str_split s sep =
     (if sep = [] then Inl (ValueError ''empty separator'') else Inr (split_on sep [] s))"

text \<open>\<open>xs[1]\<close> of Python on a list.\<close>

definition index1 :: "'a list \<Rightarrow> error + 'a" where
  "index1 xs = (case xs of _ # x # _ \<Rightarrow> Inr x | _ \<Rightarrow> Inl IndexError)"

text \<open>\<open>x in s\<close> of Python on strings: \<open>x\<close> occurs in \<open>s\<close> as a contiguous piece.\<close>

definition str_contains :: "string \<Rightarrow> string \<Rightarrow> bool" where
  "str_contains s x = sublist x s"

text \<open>
  Truth value of an optional string, as \<open>not self.state['access_token']\<close> reads it:
  \<open>None\<close> and the empty string are false.
\<close>

definition truthy :: "string option \<Rightarrow> bool" where
  "truthy t = (case t of None \<Rightarrow> False | Some s \<Rightarrow> s \<noteq> [])"

text \<open>\<open>int(x)\<close> of Python on a number: truncation towards zero.\<close>

definition py_int :: "rat \<Rightarrow> int" where
  "py_int r = (if 0 \<le> r then \<lfloor>r\<rfloor> else \<lceil>r\<rceil>)"


section \<open>The argument validator (\<open>TDClient._validate_arguments\<close>)\<close>

text \<open>
  \<open>ENDPOINT_ARGUMENTS\<close> lives in \<open>td/fields.py\<close>: a dictionary from endpoint name to a
  dictionary from parameter name to the list of permitted values.  The validator takes
  it as its first argument.  \<open>parameter_argument\<close> is a single string or a list of
  strings.
\<close>

type_synonym endpoint_arguments = "string \<rightharpoonup> (string \<rightharpoonup> string list)"

datatype parameter_argument = Str string | StrList "string list"

definition message :: "string \<Rightarrow> string" where
  "message a =
     CHR 0x0A # ''The argument is not valid, please choose a valid argument: '' @ a @ [CHR 0x0A]"

definition validate_arguments ::
  "endpoint_arguments \<Rightarrow> string \<Rightarrow> string \<Rightarrow> parameter_argument \<Rightarrow> error + bool" where
  "validate_arguments ENDPOINT_ARGUMENTS endpoint parameter_name parameter_argument =
     (case ENDPOINT_ARGUMENTS endpoint of
        None \<Rightarrow> Inl (KeyError endpoint)
      | Some parameters \<Rightarrow>
          (case parameters parameter_name of
             None \<Rightarrow> Inl (KeyError parameter_name)
           | Some arguments \<Rightarrow>
               (let parameter_argument' =
                      (case parameter_argument of Str s \<Rightarrow> [s] | StrList xs \<Rightarrow> xs);
                    validation_result =
                      map (\<lambda>argument. argument \<in> set arguments) parameter_argument'
                in if False \<in> set validation_result
                   then Inl (ValueError (message (join '' ,'' arguments)))
                   else Inr True)))"

text \<open>
  Modelled from the spec: the entry of \<open>ENDPOINT_ARGUMENTS\<close> (file \<open>td/fields.py\<close>, not
  among the sources) for endpoint \<open>get_market_hours\<close>, parameter \<open>markets\<close>, with the
  allowed set the spec names.
\<close>

definition market_hours_table :: endpoint_arguments where
  "market_hours_table =
     [''get_market_hours'' \<mapsto>
        [''markets'' \<mapsto> [''EQUITY'', ''OPTION'', ''FUTURE'', ''BOND'', ''FOREX'']]]"


section \<open>Watchlist items (\<open>td/watchlist_item.py\<close>)\<close>

text \<open>
  The values a watchlist item holds: \<open>None\<close>, numbers, strings and the nested
  \<open>instrument\<close> dictionary.  A dictionary is an association list in insertion order;
  \<open>d[k] = v\<close> is \<open>AList.update\<close> (in place for a present key, appended otherwise) and
  \<open>del d[k]\<close> is \<open>dict_del\<close>.
\<close>

datatype wval =
    WNone
  | WInt int
  | WFloat rat
  | WStr string
  | WDict "(string \<times> wval) list"


text \<open>A line written by \<open>print\<close>: the format string and the values formatted into it.\<close>

datatype fmtarg =
    FStr string
  | FInt int
  | FVal wval
  | FHeaders "string \<rightharpoonup> string"
  | FLinks "(string \<times> string) list"

type_synonym printed = "string \<times> fmtarg list"











section \<open>The client session (\<open>td/client.py\<close>)\<close>

subsection \<open>Configuration, session state and the world around the client\<close>

text \<open>\<open>self.config\<close>, with the keys of \<open>__init__\<close>.\<close>

record config =
  cache_state :: bool
  api_endpoint :: string
  api_version :: string
  auth_endpoint :: string
  token_endpoint :: string
  refresh_enabled :: bool

text \<open>
  \<open>self.state\<close>: a dictionary with seven fixed keys, here a record with the types the
  source stores under them (a token is a string or \<open>None\<close>, an expiry is a number of
  epoch seconds).  Times are rational numbers: the rounding of Python's floats is not
  part of the model.
\<close>

record session_state =
  access_token :: "string option"
  refresh_token :: "string option"
  access_token_expires_at :: rat
  refresh_token_expires_at :: rat
  authorization_url :: "string option"
  redirect_code :: "string option"
  loggedin :: bool

text \<open>The initialised state of \<open>__init__\<close>: the default values.\<close>

definition default_state :: session_state where
  "default_state =
     \<lparr> access_token = None, refresh_token = None,
       access_token_expires_at = 0, refresh_token_expires_at = 0,
       authorization_url = None, redirect_code = None, loggedin = False \<rparr>"

text \<open>
  The JSON object of a token response, seen through the four keys \<open>_token_save\<close>
  reads; \<open>None\<close> is a key that is not in the dictionary.  \<open>expires_in\<close> and
  \<open>refresh_token_expires_in\<close> are JSON integers, on which \<open>int(...)\<close> is the identity.
\<close>

record token_dict =
  tk_access_token :: "string option"
  tk_refresh_token :: "string option"
  tk_expires_in :: "int option"
  tk_refresh_token_expires_in :: "int option"

text \<open>
  A request handed to the \<open>requests\<close> library and the response object it returns, with
  the attributes the client reads.  \<open>resp_headers\<close> is the lookup of the response's
  header dictionary (\<open>None\<close>: the header is not there); \<open>json_body\<close> is what
  \<open>response.json()\<close> returns (\<open>None\<close>: the body is not JSON and the call raises).
\<close>

datatype payload = Form "(string \<times> string option) list" | Raw string

record request =
  req_method :: string
  req_url :: string
  req_headers :: "(string \<times> string) list"
  req_params :: "(string \<times> string) list option"
  req_data :: "payload option"
  req_json :: "payload option"

record response =
  status_code :: int
  resp_headers :: "string \<rightharpoonup> string"
  resp_content :: string
  resp_text :: string
  resp_url :: string
  resp_links :: "(string \<times> string) list"
  json_body :: "token_dict option"
  request_body :: "string option"
  request_method :: string

text \<open>The dictionary \<open>_make_request\<close> returns when order details are asked for.\<close>

record order_response =
  order_id :: string
  o_headers :: "string \<rightharpoonup> string"
  o_content :: string
  o_status_code :: int
  o_request_body :: "string option"
  o_request_method :: string

text \<open>What \<open>_make_request\<close> returns: \<open>None\<close>, the parsed JSON body, or the order dictionary.\<close>

datatype ret = RNone | RJson token_dict | ROrder order_response

text \<open>
  The client object together with everything its methods touch:
  \<^item> \<open>session_file\<close>: the content of the JSON state file at the session path
    (\<open>None\<close>: the file does not exist);
  \<^item> \<open>json_dump\<close>, \<open>json_load\<close>: the \<open>json\<close> module on the state dictionary
    (\<open>json_load\<close> gives \<open>None\<close> where \<open>json.load\<close> raises);
  \<^item> \<open>clock\<close>, \<open>ticks\<close>: \<open>time.time()\<close>; the \<open>n\<close>-th call returns \<open>clock n\<close>;
  \<^item> \<open>replies\<close>: the responses the remote side will give, in order; \<open>sent\<close>: the
    HTTP requests issued so far;
  \<^item> \<open>out\<close>: the lines printed so far.
\<close>

record world =
  config :: config
  state :: session_state
  client_id :: string
  session_file :: "string option"
  json_dump :: "session_state \<Rightarrow> string"
  json_load :: "string \<Rightarrow> session_state option"
  clock :: "nat \<Rightarrow> rat"
  ticks :: nat
  replies :: "response list"
  sent :: "request list"
  out :: "printed list"

definition time_time :: "world \<Rightarrow> rat \<times> world" where
  "time_time w = (clock w (ticks w), w\<lparr>ticks := Suc (ticks w)\<rparr>)"

definition print :: "printed \<Rightarrow> world \<Rightarrow> world" where
  "print l w = w\<lparr>out := out w @ [l]\<rparr>"

subsection \<open>\<open>_headers\<close> and \<open>_api_endpoint\<close>\<close>

definition headers :: "world \<Rightarrow> string option \<Rightarrow> (string \<times> string) list" where
  "headers w mode =
     (let hs = [(''Authorization'',
                 ''Bearer '' @ (case access_token (state w) of None \<Rightarrow> ''None'' | Some t \<Rightarrow> t))]
      in if mode = Some ''json'' then AList.update ''Content-Type'' ''application/json'' hs
         else if mode = Some ''form''
         then AList.update ''Content-Type'' ''application/x-www-form-urlencoded'' hs
         else hs)"

definition api_endpoint_url :: "world \<Rightarrow> string \<Rightarrow> string option \<Rightarrow> string" where
  "api_endpoint_url w endpoint resource =
     (let parts =
            (if truthy resource then [the resource, api_version (config w), endpoint]
             else [api_endpoint (config w), api_version (config w), endpoint])
      in join ''/'' parts)"

subsection \<open>\<open>_state_manager\<close> and \<open>logout\<close>\<close>

text \<open>
  The four branches of \<open>_state_manager\<close>, in the order of the source.  On \<open>'init'\<close>
  with caching on and a state file, the state is updated from the file
  (\<open>self.state.update(json.load(...))\<close>; the file holds the seven keys \<open>'save'\<close> writes);
  with caching off the file is deleted; with no file a line is printed.  No branch
  assigns the default values.  Any other case does nothing.  The choice of the path
  (\<open>credentials_path\<close> or the default directory, created when missing) is not
  modelled: \<open>session_file\<close> is the file at the path chosen.
\<close>

definition state_manager :: "world \<Rightarrow> string \<Rightarrow> error + world" where
  "state_manager w action =
     (if action = ''init'' \<and> cache_state (config w) = True \<and> session_file w \<noteq> None
      then (case json_load w (the (session_file w)) of
              None \<Rightarrow> Inl JSONDecodeError
            | Some loaded \<Rightarrow> Inr (w\<lparr>state := loaded\<rparr>))
      else if action = ''init'' \<and> cache_state (config w) = False \<and> session_file w \<noteq> None
      then Inr (w\<lparr>session_file := None\<rparr>)
      else if action = ''init'' \<and> cache_state (config w) = True \<and> session_file w = None
      then Inr (print (''Their is no state file to load, will use default state.'', []) w)
      else if action = ''save'' \<and> cache_state (config w)
      then Inr (w\<lparr>session_file := Some (json_dump w (state w))\<rparr>)
      else Inr w)"

definition logout :: "world \<Rightarrow> error + world" where
  "logout w = state_manager w ''init''"

subsection \<open>\<open>_token_save\<close> and \<open>_token_seconds\<close>\<close>

text \<open>
  \<open>'access_token' not in token_dict\<close> raises \<open>TypeError\<close> on \<open>None\<close> and is true on the
  order dictionary.  Each \<open>time.time()\<close> is a reading of its own.
\<close>

definition token_save :: "world \<Rightarrow> ret \<Rightarrow> error + (bool \<times> world)" where
  "token_save w token_dict =
     (case token_dict of
        RNone \<Rightarrow> Inl TypeError
      | ROrder _ \<Rightarrow> (case logout w of Inl e \<Rightarrow> Inl e | Inr w' \<Rightarrow> Inr (False, w'))
      | RJson td \<Rightarrow>
          (case tk_access_token td of
             None \<Rightarrow> (case logout w of Inl e \<Rightarrow> Inl e | Inr w' \<Rightarrow> Inr (False, w'))
           | Some a \<Rightarrow>
          (case tk_refresh_token td of
             None \<Rightarrow> Inl (KeyError ''refresh_token'')
           | Some r \<Rightarrow>
          (let w1 = w\<lparr>state := (state w)\<lparr>access_token := Some a, refresh_token := Some r\<rparr>\<rparr>;
               (t1, w2) = time_time w1
           in case tk_expires_in td of
                None \<Rightarrow> Inl (KeyError ''expires_in'')
              | Some expires_in \<Rightarrow>
             (let access_token_expire = t1 + of_int expires_in;
                  (t2, w3) = time_time w2
              in case tk_refresh_token_expires_in td of
                   None \<Rightarrow> Inl (KeyError ''refresh_token_expires_in'')
                 | Some refresh_expires_in \<Rightarrow>
                (let refresh_token_expire = t2 + of_int refresh_expires_in
                 in Inr (True,
                         w3\<lparr>state := (state w3)
                               \<lparr>access_token_expires_at := access_token_expire,
                                refresh_token_expires_at := refresh_token_expire,
                                loggedin := True\<rparr>\<rparr>)))))))"

text \<open>
  \<open>_token_seconds\<close>.  \<open>not token or time.time() >= expiry\<close> reads the clock only when
  the token is there; the remaining seconds are computed from a second reading.  A
  token type other than the two leaves \<open>token_exp\<close> unbound.
\<close>

definition token_seconds :: "world \<Rightarrow> string \<Rightarrow> error + (int \<times> world)" where
  "token_seconds w token_type =
     (if token_type = ''access_token'' then
        (if \<not> truthy (access_token (state w)) then Inr (0, w)
         else (let (t1, w1) = time_time w
               in if t1 \<ge> access_token_expires_at (state w1) then Inr (0, w1)
                  else (let (t2, w2) = time_time w1
                        in Inr (py_int (access_token_expires_at (state w2) - t2), w2))))
      else if token_type = ''refresh_token'' then
        (if \<not> truthy (refresh_token (state w)) then Inr (0, w)
         else (let (t1, w1) = time_time w
               in if t1 \<ge> refresh_token_expires_at (state w1) then Inr (0, w1)
                  else (let (t2, w2) = time_time w1
                        in Inr (py_int (refresh_token_expires_at (state w2) - t2), w2))))
      else Inl UnboundLocalError)"

subsection \<open>\<open>_make_request\<close>, \<open>_token_validation\<close> and \<open>grab_refresh_token\<close>\<close>

text \<open>
  One call of the \<open>requests\<close> library: the request is recorded and the next reply of
  the remote side comes back; with no reply left the call raises.
\<close>

definition requests_call :: "world \<Rightarrow> request \<Rightarrow> error + (response \<times> world)" where
  "requests_call w rq =
     (case replies w of
        [] \<Rightarrow> Inl ConnectionError
      | r # rs \<Rightarrow> Inr (r, w\<lparr>replies := rs, sent := sent w @ [rq]\<rparr>))"

text \<open>
  Lines 450 to 460, "Handle the request": one branch per method; any other method
  leaves \<open>response\<close> unbound.
\<close>

definition handle_the_request ::
  "world \<Rightarrow> string \<Rightarrow> string \<Rightarrow> (string \<times> string) list \<Rightarrow> (string \<times> string) list option \<Rightarrow>
   payload option \<Rightarrow> payload option \<Rightarrow> error + (response \<times> world)" where
  "handle_the_request w method url hs params data js =
     (let rq = \<lparr> req_method = method, req_url = url, req_headers = hs,
                 req_params = params, req_data = data, req_json = js \<rparr>
      in if method = ''get'' then requests_call w rq
         else if method = ''post'' then requests_call w rq
         else if method = ''put'' then requests_call w rq
         else if method = ''delete'' then requests_call w rq
         else if method = ''patch'' then requests_call w rq
         else Inl UnboundLocalError)"

text \<open>
  Lines 468 to 472, "Grab the order id, if it exists".  It runs for every response,
  before the status code is looked at.
\<close>

definition grab_order_id :: "response \<Rightarrow> error + string" where
  "grab_order_id r =
     (case resp_headers r ''Location'' of
        Some location \<Rightarrow>
          (case str_split location ''orders/'' of
             Inl e \<Rightarrow> Inl e
           | Inr pieces \<Rightarrow> index1 pieces)
      | None \<Rightarrow> Inr '''')"

text \<open>Lines 474 to 501: the result by status code.\<close>

definition classify_response ::
  "world \<Rightarrow> response \<Rightarrow> string \<Rightarrow> bool \<Rightarrow> error + (ret \<times> world)" where
  "classify_response w r oid order_details =
     (if status_code r \<in> {200, 201} then
        (if order_details then
           Inr (ROrder \<lparr> order_id = oid, o_headers = resp_headers r,
                          o_content = resp_content r, o_status_code = status_code r,
                          o_request_body = request_body r,
                          o_request_method = request_method r \<rparr>, w)
         else (case resp_headers r ''Content-Type'' of
                 None \<Rightarrow> Inl (KeyError ''content-type'')
               | Some ct \<Rightarrow>
                   if ct \<in> {''application/json;charset=UTF-8'', ''application/json''}
                   then (case json_body r of
                           None \<Rightarrow> Inl JSONDecodeError
                         | Some j \<Rightarrow> Inr (RJson j, w))
                   else Inr (RNone, w)))
      else if status_code r \<in> {401, 400, 403, 415, 500} then
        Inr (RNone,
             print (replicate 80 CHR ''-'', [])
              (print (''RESPONSE TEXT: {}'', [FStr (resp_text r)])
              (print (''RESPONSE PARAMS: {}'', [FLinks (resp_links r)])
              (print (''RESPONSE HEADERS: {}'', [FHeaders (resp_headers r)])
              (print (''RESPONSE URL: {}'', [FStr (resp_url r)])
              (print (''BAD REQUEST - STATUS CODE: {}'', [FInt (status_code r)])
              (print (replicate 80 CHR ''-'', []) w)))))))
      else Inr (RNone, w))"

text \<open>
  \<open>_make_request\<close> validates the token unless the call goes to the token endpoint;
  \<open>_token_validation\<close> refreshes through \<open>grab_refresh_token\<close>, which calls
  \<open>_make_request\<close> on the token endpoint.  The three are defined together; the
  recursion ends because the inner call is to the token endpoint.
\<close>

function make_request ::
    "world \<Rightarrow> string \<Rightarrow> string \<Rightarrow> string option \<Rightarrow> (string \<times> string) list option \<Rightarrow>
     payload option \<Rightarrow> payload option \<Rightarrow> bool \<Rightarrow> error + (ret \<times> world)"
  and token_validation :: "world \<Rightarrow> int \<Rightarrow> error + world"
  and grab_refresh_token :: "world \<Rightarrow> error + (bool \<times> world)"
where
  "make_request w method endpoint mode params data js order_details =
     (let url = api_endpoint_url w endpoint None;
          hs = headers w mode
      in case (if endpoint \<noteq> token_endpoint (config w)
               then (case token_validation w 5 of
                       Inl e \<Rightarrow> Inl e
                     | Inr w' \<Rightarrow> Inr (hs, w'))
               else Inr (AList.delete ''Authorization'' hs, w)) of
           Inl e \<Rightarrow> Inl e
         | Inr (hs', w1) \<Rightarrow>
        (case handle_the_request w1 method url hs' params data js of
           Inl e \<Rightarrow> Inl e
         | Inr (r, w2) \<Rightarrow>
        (case grab_order_id r of
           Inl e \<Rightarrow> Inl e
         | Inr oid \<Rightarrow> classify_response w2 r oid order_details)))"
| "token_validation w nseconds =
     (case token_seconds w ''access_token'' of
        Inl e \<Rightarrow> Inl e
      | Inr (secs, w1) \<Rightarrow>
          if secs < nseconds \<and> refresh_enabled (config w1)
          then (case grab_refresh_token w1 of
                  Inl e \<Rightarrow> Inl e
                | Inr (_, w2) \<Rightarrow> Inr w2)
          else Inr w1)"
| "grab_refresh_token w =
     (let data = Form [(''client_id'', Some (client_id w)),
                       (''grant_type'', Some ''refresh_token''),
                       (''access_type'', Some ''offline''),
                       (''refresh_token'', refresh_token (state w))]
      in case make_request w ''post'' (token_endpoint (config w)) (Some ''form'')
                None (Some data) None False of
           Inl e \<Rightarrow> Inl e
         | Inr (token_response, w1) \<Rightarrow>
        (case token_save w1 token_response of
           Inl e \<Rightarrow> Inl e
         | Inr (_, w2) \<Rightarrow>
        (case state_manager w2 ''save'' of
           Inl e \<Rightarrow> Inl e
         | Inr w3 \<Rightarrow> Inr (True, w3))))"
  by pat_completeness auto
termination
  by (relation "measure (\<lambda>x. case x of
        Inl (w, method, endpoint, rest) \<Rightarrow> (if endpoint \<noteq> token_endpoint (config w) then 3 else 0)
      | Inr (Inl (w, n)) \<Rightarrow> 2
      | Inr (Inr w) \<Rightarrow> 1)") auto

declare make_request.simps [simp del]
declare token_validation.simps [simp del]
declare grab_refresh_token.simps [simp del]

text \<open>
  Lines 441 to 448 of \<open>_make_request\<close> on their own: the URL and headers are built, and
  the token is validated or, on the token endpoint, the \<open>Authorization\<close> header
  dropped.  The result is the headers to send and the client after the validation.
\<close>

definition before_request ::
  "world \<Rightarrow> string \<Rightarrow> string option \<Rightarrow> error + ((string \<times> string) list \<times> world)" where
  "before_request w endpoint mode =
     (if endpoint \<noteq> token_endpoint (config w)
      then (case token_validation w 5 of
              Inl e \<Rightarrow> Inl e
            | Inr w' \<Rightarrow> Inr (headers w mode, w'))
      else Inr (AList.delete ''Authorization'' (headers w mode), w))"

text \<open>What the caller of a method sees: the exception raised or the value returned.\<close>

definition result_of :: "error + ('a \<times> world) \<Rightarrow> error + 'a" where
  "result_of x = (case x of Inl e \<Rightarrow> Inl e | Inr (v, _) \<Rightarrow> Inr v)"

subsection \<open>\<open>_silent_sso\<close>\<close>

definition silent_sso :: "world \<Rightarrow> error + (bool \<times> world)" where
  "silent_sso w =
     (case token_seconds w ''access_token'' of
        Inl e \<Rightarrow> Inl e
      | Inr (asecs, w1) \<Rightarrow>
          if asecs > 0 then Inr (True, w1)
          else (case token_seconds w1 ''refresh_token'' of
                  Inl e \<Rightarrow> Inl e
                | Inr (rsecs, w2) \<Rightarrow>
                    if rsecs \<le> 0 then Inr (False, w2)
                    else if truthy (refresh_token (state w2)) then
                      (case grab_refresh_token w2 of
                         Inl e \<Rightarrow> Inl e
                       | Inr (ok, w3) \<Rightarrow> if ok then Inr (True, w3) else Inr (False, w3))
                    else Inr (False, w2)))"


subsection \<open>Reading the state by token kind\<close>

text \<open>The token and the expiry that \<open>_token_seconds\<close> looks at for a token kind.\<close>

definition token_of :: "string \<Rightarrow> session_state \<Rightarrow> string option" where
  "token_of kind s = (if kind = ''access_token'' then access_token s else refresh_token s)"

definition expires_at_of :: "string \<Rightarrow> session_state \<Rightarrow> rat" where
  "expires_at_of kind s =
     (if kind = ''access_token'' then access_token_expires_at s else refresh_token_expires_at s)"

subsection \<open>A concrete client\<close>

text \<open>
  The configuration \<open>__init__\<close> sets, and a client used for the concrete runs below:
  it holds an access token good until 5000.5 and a refresh token good until 9000, its
  clock reads 1000 at every call, caching is on and there is no state file.
  \<open>demo_dump\<close> stands for \<open>json.dump\<close> there.
\<close>

definition default_config :: config where
  "default_config =
     \<lparr> cache_state = True,
       api_endpoint = ''https://api.tdameritrade.com'',
       api_version = ''v1'',
       auth_endpoint = ''https://auth.tdameritrade.com/auth'',
       token_endpoint = ''oauth2/token'',
       refresh_enabled = True \<rparr>"

definition demo_dump :: "session_state \<Rightarrow> string" where
  "demo_dump s =
     ''access_token='' @ (case access_token s of None \<Rightarrow> ''null'' | Some a \<Rightarrow> a) @
     '';refresh_token='' @ (case refresh_token s of None \<Rightarrow> ''null'' | Some a \<Rightarrow> a) @
     (if loggedin s then '';loggedin=true'' else '';loggedin=false'')"

definition demo_state :: session_state where
  "demo_state =
     \<lparr> access_token = Some ''OLD'', refresh_token = Some ''RT'',
       access_token_expires_at = 10001 / 2, refresh_token_expires_at = 9000,
       authorization_url = None, redirect_code = None, loggedin = True \<rparr>"

definition demo_world :: world where
  "demo_world =
     \<lparr> config = default_config, state = demo_state, client_id = ''CID'',
       session_file = None, json_dump = demo_dump, json_load = (\<lambda>b. None),
       clock = (\<lambda>n. 1000), ticks = 0, replies = [], sent = [], out = [] \<rparr>"


text \<open>
  The token response of the spec's example and the state the client holds once it is
  committed at time 1000.  \<open>no_token_response\<close> is a response dictionary without any
  of the four keys.
\<close>

definition demo_token_response :: token_dict where
  "demo_token_response =
     \<lparr> tk_access_token = Some ''A'', tk_refresh_token = Some ''R'',
       tk_expires_in = Some 1800, tk_refresh_token_expires_in = Some 7776000 \<rparr>"

definition committed_state :: session_state where
  "committed_state =
     \<lparr> access_token = Some ''A'', refresh_token = Some ''R'',
       access_token_expires_at = 2800, refresh_token_expires_at = 7777000,
       authorization_url = None, redirect_code = None, loggedin = True \<rparr>"

definition no_token_response :: token_dict where
  "no_token_response =
     \<lparr> tk_access_token = None, tk_refresh_token = None,
       tk_expires_in = None, tk_refresh_token_expires_in = None \<rparr>"


text \<open>
  Two replies of the remote side: \<open>order_reply\<close> answers a call on an order with the
  given status code and \<open>Location\<close> header (or none), and \<open>token_reply\<close> answers a call
  on the token endpoint with status 200 and the given JSON object.
\<close>

definition order_reply :: "int \<Rightarrow> string option \<Rightarrow> response" where
  "order_reply code location =
     \<lparr> status_code = code,
       resp_headers = (case location of None \<Rightarrow> Map.empty | Some l \<Rightarrow> [''Location'' \<mapsto> l]),
       resp_content = '''', resp_text = '''',
       resp_url = ''https://api.tdameritrade.com/v1/accounts/ACCT123/orders/555'',
       resp_links = [], json_body = None, request_body = None,
       request_method = ''DELETE'' \<rparr>"

definition token_reply :: "token_dict \<Rightarrow> response" where
  "token_reply td =
     \<lparr> status_code = 200,
       resp_headers = [''Content-Type'' \<mapsto> ''application/json''],
       resp_content = '''', resp_text = '''',
       resp_url = ''https://api.tdameritrade.com/v1/oauth2/token'',
       resp_links = [], json_body = Some td, request_body = None,
       request_method = ''POST'' \<rparr>"


subsection \<open>A codec for the state file\<close>

text \<open>
  A pair of functions to stand for \<open>json.dump\<close> and \<open>json.load\<close> in a concrete run.
  \<open>fields_dump\<close> writes all seven values of the state, separated by \<open>;\<close>: a string
  as \<open>S\<close> and its text, \<open>None\<close> as \<open>N\<close>, a number as numerator \<open>/\<close> denominator in
  decimal, the flag as \<open>true\<close> or \<open>false\<close>.  \<open>fields_load\<close> parses such a file back
  and gives \<open>None\<close> on anything else.
\<close>

fun show_nat :: "nat \<Rightarrow> string" where
  "show_nat n =
     (if n < 10 then [''0123456789'' ! n]
      else show_nat (n div 10) @ [''0123456789'' ! (n mod 10)])"

declare show_nat.simps [simp del]

definition show_int :: "int \<Rightarrow> string" where
  "show_int i = (if i < 0 then CHR ''-'' # show_nat (nat (- i)) else show_nat (nat i))"

definition show_rat :: "rat \<Rightarrow> string" where
  "show_rat r = (case quotient_of r of (n, d) \<Rightarrow> show_int n @ ''/'' @ show_int d)"

definition show_opt :: "string option \<Rightarrow> string" where
  "show_opt t = (case t of None \<Rightarrow> ''N'' | Some s \<Rightarrow> CHR ''S'' # s)"

definition fields_dump :: "session_state \<Rightarrow> string" where
  "fields_dump s =
     join '';''
       [show_opt (access_token s), show_opt (refresh_token s),
        show_rat (access_token_expires_at s), show_rat (refresh_token_expires_at s),
        show_opt (authorization_url s), show_opt (redirect_code s),
        if loggedin s then ''true'' else ''false'']"

definition digit_val :: "char \<Rightarrow> nat option" where
  "digit_val c = map_of (zip ''0123456789'' [0, 1, 2, 3, 4, 5, 6, 7, 8, 9]) c"

fun read_digits :: "nat \<Rightarrow> string \<Rightarrow> nat option" where
  "read_digits acc [] = Some acc"
| "read_digits acc (c # cs) =
     (case digit_val c of None \<Rightarrow> None | Some d \<Rightarrow> read_digits (10 * acc + d) cs)"

definition read_int :: "string \<Rightarrow> int option" where
  "read_int s =
     (case s of
        [] \<Rightarrow> None
      | c # cs \<Rightarrow>
          if c = CHR ''-'' then (if cs = [] then None else map_option (\<lambda>n. - int n) (read_digits 0 cs))
          else map_option int (read_digits 0 s))"

definition read_rat :: "string \<Rightarrow> rat option" where
  "read_rat s =
     (case split_on ''/'' [] s of
        [n, d] \<Rightarrow>
          (case read_int n of
             None \<Rightarrow> None
           | Some n' \<Rightarrow>
               (case read_int d of
                  None \<Rightarrow> None
                | Some d' \<Rightarrow> if d' = 0 then None else Some (of_int n' / of_int d')))
      | _ \<Rightarrow> None)"

definition read_opt :: "string \<Rightarrow> string option option" where
  "read_opt s =
     (case s of
        [] \<Rightarrow> None
      | c # cs \<Rightarrow>
          if c = CHR ''S'' then Some (Some cs)
          else if s = ''N'' then Some None
          else None)"

definition read_bool :: "string \<Rightarrow> bool option" where
  "read_bool s = (if s = ''true'' then Some True else if s = ''false'' then Some False else None)"

definition fields_load :: "string \<Rightarrow> session_state option" where
  "fields_load b =
     (case split_on '';'' [] b of
        [a, r, ae, re, au, rc, lg] \<Rightarrow>
          (case read_opt a of None \<Rightarrow> None | Some a' \<Rightarrow>
          (case read_opt r of None \<Rightarrow> None | Some r' \<Rightarrow>
          (case read_rat ae of None \<Rightarrow> None | Some ae' \<Rightarrow>
          (case read_rat re of None \<Rightarrow> None | Some re' \<Rightarrow>
          (case read_opt au of None \<Rightarrow> None | Some au' \<Rightarrow>
          (case read_opt rc of None \<Rightarrow> None | Some rc' \<Rightarrow>
          (case read_bool lg of None \<Rightarrow> None | Some lg' \<Rightarrow>
             Some \<lparr> access_token = a', refresh_token = r',
                    access_token_expires_at = ae', refresh_token_expires_at = re',
                    authorization_url = au', redirect_code = rc', loggedin = lg' \<rparr>)))))))
      | _ \<Rightarrow> None)"


section \<open>Properties of the validator\<close>

lemma False_in_map_member:
  "False \<in> set (map (\<lambda>a. a \<in> set ys) xs) \<longleftrightarrow> (\<exists>a \<in> set xs. a \<notin> set ys)"
  by (induction xs) auto

lemma sublist_join: "a \<in> set xs \<Longrightarrow> sublist a (join sep xs)"
proof (induction sep xs rule: join.induct)
  case (1 sep)
  then show ?case by simp
next
  case (2 sep x)
  then show ?case by simp
next
  case (3 sep x y ys)
  show ?case
  proof (cases "a = x")
    case True
    then show ?thesis by simp
  next
    case False
    with 3 have "sublist a (join sep (y # ys))" by simp
    then obtain ps ss where "join sep (y # ys) = ps @ a @ ss" by (auto simp: sublist_def)
    then have "join sep (x # y # ys) = (x @ sep @ ps) @ a @ ss" by simp
    then show ?thesis unfolding sublist_def by blast
  qed
qed

text \<open>
  Claim C4, as the code has it.  For an endpoint and a parameter name of the validation
  table: a single string is validated as the one-element list; when every supplied
  value is in the allow-list the validator returns \<open>True\<close>; when some supplied value
  is not, it raises \<open>ValueError\<close> with a message built from the allow-list alone
  (its members joined by \<open>" ,"\<close>), which contains every permitted value.  The
  message does not depend on the supplied values.
\<close>

theorem validate_arguments_allow_list:
  assumes "T endpoint = Some parameters" and "parameters parameter_name = Some arguments"
  shows "validate_arguments T endpoint parameter_name (Str s) =
           validate_arguments T endpoint parameter_name (StrList [s])
       \<and> validate_arguments T endpoint parameter_name (StrList xs) =
           (if set xs \<subseteq> set arguments then Inr True
            else Inl (ValueError (message (join '' ,'' arguments))))
       \<and> (\<forall>a \<in> set arguments. str_contains (message (join '' ,'' arguments)) a)"
proof -
  have 1: "validate_arguments T endpoint parameter_name (Str s) =
           validate_arguments T endpoint parameter_name (StrList [s])"
    using assms by (simp add: validate_arguments_def)
  have 2: "validate_arguments T endpoint parameter_name (StrList xs) =
           (if set xs \<subseteq> set arguments then Inr True
            else Inl (ValueError (message (join '' ,'' arguments))))"
    using assms by (auto simp: validate_arguments_def Let_def False_in_map_member)
  have 3: "str_contains (message (join '' ,'' arguments)) a" if "a \<in> set arguments" for a
  proof -
    from that obtain ps ss where "join '' ,'' arguments = ps @ a @ ss"
      using sublist_join[of a arguments "'' ,''"] by (auto simp: sublist_def)
    then have "message (join '' ,'' arguments) =
       (CHR 0x0A # ''The argument is not valid, please choose a valid argument: '' @ ps) @ a @ (ss @ [CHR 0x0A])"
      by (simp add: message_def)
    then show ?thesis unfolding str_contains_def sublist_def by blast
  qed
  from 1 2 3 show ?thesis by blast
qed

theorem validate_arguments_allow_list_witness:
  "validate_arguments market_hours_table ''get_market_hours'' ''markets'' (Str ''BOND'') = Inr True
 \<and> validate_arguments market_hours_table ''get_market_hours'' ''markets''
      (StrList [''EQUITY'', ''FOREX'']) = Inr True
 \<and> validate_arguments market_hours_table ''get_market_hours'' ''markets'' (StrList [''CRYPTO'']) =
      Inl (ValueError (message ''EQUITY ,OPTION ,FUTURE ,BOND ,FOREX''))
 \<and> str_contains (message ''EQUITY ,OPTION ,FUTURE ,BOND ,FOREX'') ''FUTURE''"
  using validate_arguments_allow_list[of market_hours_table "''get_market_hours''"
          "[''markets'' \<mapsto> [''EQUITY'', ''OPTION'', ''FUTURE'', ''BOND'', ''FOREX'']]"
          "''markets''" "[''EQUITY'', ''OPTION'', ''FUTURE'', ''BOND'', ''FOREX'']" "''BOND''" "[''BOND'']"]
        validate_arguments_allow_list[of market_hours_table "''get_market_hours''"
          "[''markets'' \<mapsto> [''EQUITY'', ''OPTION'', ''FUTURE'', ''BOND'', ''FOREX'']]"
          "''markets''" "[''EQUITY'', ''OPTION'', ''FUTURE'', ''BOND'', ''FOREX'']" "''BOND''" "[''EQUITY'', ''FOREX'']"]
        validate_arguments_allow_list[of market_hours_table "''get_market_hours''"
          "[''markets'' \<mapsto> [''EQUITY'', ''OPTION'', ''FUTURE'', ''BOND'', ''FOREX'']]"
          "''markets''" "[''EQUITY'', ''OPTION'', ''FUTURE'', ''BOND'', ''FOREX'']" "''BOND''" "[''CRYPTO'']"]
  by (simp add: market_hours_table_def)

text \<open>
  Claim C4 as stated says the error names the offending value.  For
  \<open>get_market_hours\<close>/\<open>markets\<close> and the value \<open>CRYPTO\<close> the message raised is the
  one below, and \<open>CRYPTO\<close> does not occur in it.
\<close>

theorem validate_arguments_offending_value_counterexample:
  "validate_arguments market_hours_table ''get_market_hours'' ''markets'' (StrList [''CRYPTO'']) =
     Inl (ValueError (CHR 0x0A #
       ''The argument is not valid, please choose a valid argument: EQUITY ,OPTION ,FUTURE ,BOND ,FOREX''
       @ [CHR 0x0A]))
 \<and> \<not> str_contains (CHR 0x0A #
       ''The argument is not valid, please choose a valid argument: EQUITY ,OPTION ,FUTURE ,BOND ,FOREX''
       @ [CHR 0x0A]) ''CRYPTO''"
  by code_simp


section \<open>Properties of watchlist items\<close>















section \<open>Properties of the session state store\<close>

lemma state_manager_save:
  "cache_state (config w) \<Longrightarrow>
   state_manager w ''save'' = Inr (w\<lparr>session_file := Some (json_dump w (state w))\<rparr>)"
  by (simp add: state_manager_def)

lemma state_manager_save_off:
  "\<not> cache_state (config w) \<Longrightarrow> state_manager w ''save'' = Inr w"
  by (simp add: state_manager_def)

text \<open>
  Claim C9.  With caching on, \<open>save\<close> writes the file as \<open>json.dump\<close> of the state and
  leaves the state as it is; a second \<open>save\<close> right after it leaves the file with the
  very same content.
\<close>

theorem save_twice_same_file:
  assumes "cache_state (config w)"
  shows "\<exists>w1 w2. state_manager w ''save'' = Inr w1
           \<and> state w1 = state w
           \<and> session_file w1 = Some (json_dump w (state w))
           \<and> state_manager w1 ''save'' = Inr w2
           \<and> session_file w2 = session_file w1"
proof -
  let ?w1 = "w\<lparr>session_file := Some (json_dump w (state w))\<rparr>"
  have 1: "state_manager w ''save'' = Inr ?w1"
    using assms by (rule state_manager_save)
  have "cache_state (config ?w1)" using assms by simp
  then have 2: "state_manager ?w1 ''save'' = Inr (?w1\<lparr>session_file := Some (json_dump ?w1 (state ?w1))\<rparr>)"
    by (rule state_manager_save)
  from 1 2 show ?thesis by simp
qed

theorem save_twice_same_file_witness:
  "cache_state (config demo_world)
 \<and> (\<exists>w1 w2. state_manager demo_world ''save'' = Inr w1
       \<and> session_file w1 = Some ''access_token=OLD;refresh_token=RT;loggedin=true''
       \<and> state_manager w1 ''save'' = Inr w2
       \<and> session_file w2 = session_file w1)"
proof -
  have c: "cache_state (config demo_world)"
    by (simp add: demo_world_def default_config_def)
  have d: "json_dump demo_world (state demo_world) =
             ''access_token=OLD;refresh_token=RT;loggedin=true''"
    by (simp add: demo_world_def demo_state_def demo_dump_def)
  from save_twice_same_file[OF c] show ?thesis
    unfolding d using c by blast
qed


section \<open>Properties of the token clock\<close>

lemma py_int_nonneg: "0 \<le> r \<Longrightarrow> py_int r = \<lfloor>r\<rfloor>"
  by (simp add: py_int_def)

lemma floor_bounds: "rat_of_int \<lfloor>r\<rfloor> \<le> r \<and> r < rat_of_int \<lfloor>r\<rfloor> + 1"
  using floor_correct[of r] by simp

lemma token_seconds_access:
  "token_seconds w ''access_token'' =
     (if \<not> truthy (access_token (state w)) then Inr (0, w)
      else if clock w (ticks w) \<ge> access_token_expires_at (state w)
           then Inr (0, w\<lparr>ticks := Suc (ticks w)\<rparr>)
           else Inr (py_int (access_token_expires_at (state w) - clock w (Suc (ticks w))),
                     w\<lparr>ticks := Suc (Suc (ticks w))\<rparr>))"
  by (simp add: token_seconds_def time_time_def Let_def)

lemma token_seconds_refresh:
  "token_seconds w ''refresh_token'' =
     (if \<not> truthy (refresh_token (state w)) then Inr (0, w)
      else if clock w (ticks w) \<ge> refresh_token_expires_at (state w)
           then Inr (0, w\<lparr>ticks := Suc (ticks w)\<rparr>)
           else Inr (py_int (refresh_token_expires_at (state w) - clock w (Suc (ticks w))),
                     w\<lparr>ticks := Suc (Suc (ticks w))\<rparr>))"
  by (simp add: token_seconds_def time_time_def Let_def)

text \<open>
  Claim C5.  For either token kind and a clock that reads \<open>now\<close>: \<open>_token_seconds\<close>
  returns 0 when the token is absent (\<open>None\<close> or empty, which is what \<open>not token\<close>
  tests) or \<open>now\<close> is at or past its expiry; otherwise it returns the whole number of
  seconds in \<open>expiry - now\<close>, less than one second below the exact difference.  The
  session state and the requests sent are untouched.
\<close>

theorem token_seconds_remaining:
  assumes kind: "kind = ''access_token'' \<or> kind = ''refresh_token''"
      and now: "clock w (ticks w) = now" "clock w (Suc (ticks w)) = now"
  shows "\<exists>n w'. token_seconds w kind = Inr (n, w')
           \<and> state w' = state w \<and> sent w' = sent w
           \<and> (\<not> truthy (token_of kind (state w)) \<or> now \<ge> expires_at_of kind (state w)
                \<longrightarrow> n = 0)
           \<and> (truthy (token_of kind (state w)) \<and> now < expires_at_of kind (state w)
                \<longrightarrow> n = \<lfloor>expires_at_of kind (state w) - now\<rfloor>
                  \<and> of_int n \<le> expires_at_of kind (state w) - now
                  \<and> expires_at_of kind (state w) - now < of_int n + 1)"
proof -
  from kind show ?thesis
  proof
    assume k: "kind = ''access_token''"
    show ?thesis
      unfolding k token_seconds_access token_of_def expires_at_of_def
      using now floor_bounds by (auto simp: py_int_nonneg)
  next
    assume k: "kind = ''refresh_token''"
    show ?thesis
      unfolding k token_seconds_refresh token_of_def expires_at_of_def
      using now floor_bounds by (auto simp: py_int_nonneg)
  qed
qed

theorem token_seconds_remaining_witness:
  "clock demo_world (ticks demo_world) = 1000
 \<and> clock demo_world (Suc (ticks demo_world)) = 1000
 \<and> truthy (token_of ''access_token'' (state demo_world))
 \<and> expires_at_of ''access_token'' (state demo_world) = 10001 / 2
 \<and> (\<exists>w'. token_seconds demo_world ''access_token'' = Inr (4000, w'))"
proof -
  have k: "''access_token'' = ''access_token'' \<or> ''access_token'' = ''refresh_token''"
    by simp
  have c1: "clock demo_world (ticks demo_world) = 1000"
    and c2: "clock demo_world (Suc (ticks demo_world)) = 1000"
    by (simp_all add: demo_world_def)
  have t: "truthy (token_of ''access_token'' (state demo_world))"
    by (simp add: demo_world_def demo_state_def token_of_def truthy_def)
  have e: "expires_at_of ''access_token'' (state demo_world) = 10001 / 2"
    by (simp add: demo_world_def demo_state_def expires_at_of_def)
  from token_seconds_remaining[OF k c1 c2] obtain n w'
    where r: "token_seconds demo_world ''access_token'' = Inr (n, w')"
      and v: "truthy (token_of ''access_token'' (state demo_world))
              \<and> 1000 < expires_at_of ''access_token'' (state demo_world)
              \<longrightarrow> n = \<lfloor>expires_at_of ''access_token'' (state demo_world) - 1000\<rfloor>"
    by blast
  from v t e have "n = \<lfloor>10001 / 2 - 1000 :: rat\<rfloor>" by simp
  also have "\<dots> = 4000" by (rule floor_unique) simp_all
  finally have "token_seconds demo_world ''access_token'' = Inr (4000, w')"
    using r by simp
  with c1 c2 t e show ?thesis by blast
qed


section \<open>Properties of the token commit\<close>

lemma state_manager_init_load:
  "cache_state (config w) \<Longrightarrow> session_file w = Some b \<Longrightarrow> json_load w b = Some s \<Longrightarrow>
   state_manager w ''init'' = Inr (w\<lparr>state := s\<rparr>)"
  by (simp add: state_manager_def)

lemma state_manager_init_cases:
  "state_manager w ''init'' =
     (if cache_state (config w) then
        (case session_file w of
           None \<Rightarrow> Inr (print (''Their is no state file to load, will use default state.'', []) w)
         | Some b \<Rightarrow> (case json_load w b of None \<Rightarrow> Inl JSONDecodeError
                      | Some loaded \<Rightarrow> Inr (w\<lparr>state := loaded\<rparr>)))
      else (case session_file w of None \<Rightarrow> Inr w | Some b \<Rightarrow> Inr (w\<lparr>session_file := None\<rparr>)))"
  by (auto simp: state_manager_def split: option.splits)

lemma logout_state:
  assumes "logout w = Inr w'"
  shows "state w' = state w
       \<or> (cache_state (config w) \<and> (\<exists>b. session_file w = Some b \<and> json_load w b = Some (state w')))"
  using assms unfolding logout_def state_manager_init_cases
  by (auto simp: print_def split: if_splits option.splits)

lemma token_save_no_access_token:
  assumes "tk_access_token td = None"
  shows "token_save w (RJson td) = (case logout w of Inl e \<Rightarrow> Inl e | Inr w' \<Rightarrow> Inr (False, w'))"
  using assms by (simp add: token_save_def)

lemma token_save_commit:
  assumes "tk_access_token td = Some A" and "tk_refresh_token td = Some R"
      and "tk_expires_in td = Some e" and "tk_refresh_token_expires_in td = Some r"
  shows "token_save w (RJson td) =
           Inr (True,
                w\<lparr>state := (state w)\<lparr>access_token := Some A, refresh_token := Some R,
                                      access_token_expires_at := clock w (ticks w) + of_int e,
                                      refresh_token_expires_at := clock w (Suc (ticks w)) + of_int r,
                                      loggedin := True\<rparr>,
                  ticks := Suc (Suc (ticks w))\<rparr>)"
  using assms by (simp add: token_save_def time_time_def Let_def)

text \<open>A response with an access token but no refresh token raises; \<open>None\<close> raises too.\<close>

lemma token_save_missing_refresh_token:
  "tk_access_token td = Some A \<Longrightarrow> tk_refresh_token td = None \<Longrightarrow>
   token_save w (RJson td) = Inl (KeyError ''refresh_token'')"
  by (simp add: token_save_def)

lemma token_save_None: "token_save w RNone = Inl TypeError"
  by (simp add: token_save_def)

text \<open>
  A \<open>save\<close> with caching on writes the file; a client that then loads it (\<open>init\<close>)
  ends with the saved state whatever state \<open>s0\<close> it held before the load, provided
  \<open>json.load\<close> reads back what \<open>json.dump\<close> wrote.
\<close>

lemma save_then_load:
  assumes c: "cache_state (config w)"
      and rt: "json_load w (json_dump w (state w)) = Some (state w)"
  shows "\<exists>w2. state_manager w ''save'' = Inr w2
           \<and> session_file w2 = Some (json_dump w (state w))
           \<and> (\<forall>s0. \<exists>w3. state_manager (w2\<lparr>state := s0\<rparr>) ''init'' = Inr w3
                        \<and> state w3 = state w)"
proof -
  let ?w2 = "w\<lparr>session_file := Some (json_dump w (state w))\<rparr>"
  have 1: "state_manager w ''save'' = Inr ?w2" using c by (rule state_manager_save)
  have 2: "state_manager (?w2\<lparr>state := s0\<rparr>) ''init'' = Inr (?w2\<lparr>state := s0\<rparr>\<lparr>state := state w\<rparr>)"
    for s0
    by (rule state_manager_init_load[where b = "json_dump w (state w)"]) (use c rt in simp_all)
  have 3: "\<exists>w3. state_manager (?w2\<lparr>state := s0\<rparr>) ''init'' = Inr w3 \<and> state w3 = state w" for s0
    using 2[of s0] by simp
  from 1 3 show ?thesis by simp
qed

text \<open>
  Claim C7.  For a token response with an access token (and the refresh token and the
  two lifetimes that come with it), committed while the clock reads \<open>now\<close>:
  \<open>_token_save\<close> returns \<open>True\<close>; the session holds the response's access and refresh
  token; the expiries are \<open>now + expires_in\<close> and \<open>now + refresh_token_expires_in\<close>;
  \<open>loggedin\<close> is true.  With caching on, \<open>save\<close> writes the file as \<open>json.dump\<close> of
  that state, and a load of that file (\<open>init\<close>) by a client holding any other state
  \<open>s0\<close>, the default state of a new client among them, ends with the committed state
  again, provided \<open>json.load\<close> reads back what \<open>json.dump\<close> wrote for this state.
\<close>

theorem token_save_commits:
  assumes "tk_access_token td = Some A" and "tk_refresh_token td = Some R"
      and "tk_expires_in td = Some e" and "tk_refresh_token_expires_in td = Some r"
      and "clock w (ticks w) = now" and "clock w (Suc (ticks w)) = now"
  shows "\<exists>w'. token_save w (RJson td) = Inr (True, w')
           \<and> access_token (state w') = Some A
           \<and> refresh_token (state w') = Some R
           \<and> access_token_expires_at (state w') = now + of_int e
           \<and> refresh_token_expires_at (state w') = now + of_int r
           \<and> loggedin (state w')
           \<and> (cache_state (config w')
                \<and> json_load w' (json_dump w' (state w')) = Some (state w')
                \<longrightarrow> (\<exists>w2. state_manager w' ''save'' = Inr w2
                       \<and> session_file w2 = Some (json_dump w' (state w'))
                       \<and> (\<forall>s0. \<exists>w3. state_manager (w2\<lparr>state := s0\<rparr>) ''init'' = Inr w3
                                    \<and> state w3 = state w')))"
proof -
  let ?w' = "w\<lparr>state := (state w)\<lparr>access_token := Some A, refresh_token := Some R,
                                      access_token_expires_at := clock w (ticks w) + of_int e,
                                      refresh_token_expires_at := clock w (Suc (ticks w)) + of_int r,
                                      loggedin := True\<rparr>,
                  ticks := Suc (Suc (ticks w))\<rparr>"
  have 1: "token_save w (RJson td) = Inr (True, ?w')"
    using assms(1-4) by (rule token_save_commit)
  have 2: "access_token (state ?w') = Some A" "refresh_token (state ?w') = Some R"
          "access_token_expires_at (state ?w') = now + of_int e"
          "refresh_token_expires_at (state ?w') = now + of_int r"
          "loggedin (state ?w')"
    using assms(5,6) by simp_all
  have 3: "cache_state (config ?w')
            \<and> json_load ?w' (json_dump ?w' (state ?w')) = Some (state ?w')
           \<longrightarrow> (\<exists>w2. state_manager ?w' ''save'' = Inr w2
                  \<and> session_file w2 = Some (json_dump ?w' (state ?w'))
                  \<and> (\<forall>s0. \<exists>w3. state_manager (w2\<lparr>state := s0\<rparr>) ''init'' = Inr w3
                               \<and> state w3 = state ?w'))"
    using save_then_load[of ?w'] by blast
  from 1 2 3 show ?thesis by blast
qed

lemma show_nat_examples:
  "show_nat 2800 = ''2800''" "show_nat 7777000 = ''7777000''" "show_nat (Suc 0) = ''1''"
  by (simp_all add: show_nat.simps)

lemma fields_dump_committed:
  "fields_dump committed_state = ''SA;SR;2800/1;7777000/1;N;N;true''"
  by (simp add: fields_dump_def committed_state_def show_opt_def show_rat_def show_int_def
        quotient_of_number show_nat_examples)

lemma fields_load_committed:
  "fields_load ''SA;SR;2800/1;7777000/1;N;N;true'' = Some committed_state"
  by (simp add: fields_load_def read_opt_def read_rat_def read_int_def read_bool_def digit_val_def
        committed_state_def)

theorem token_save_commits_witness:
  "tk_access_token demo_token_response = Some ''A''
 \<and> clock (demo_world\<lparr>json_dump := fields_dump, json_load := fields_load\<rparr>)
          (ticks (demo_world\<lparr>json_dump := fields_dump, json_load := fields_load\<rparr>)) = 1000
 \<and> (\<exists>w'. token_save (demo_world\<lparr>json_dump := fields_dump, json_load := fields_load\<rparr>)
              (RJson demo_token_response) = Inr (True, w')
         \<and> state w' = committed_state
         \<and> cache_state (config w')
         \<and> json_dump w' (state w') = ''SA;SR;2800/1;7777000/1;N;N;true''
         \<and> json_load w' ''SA;SR;2800/1;7777000/1;N;N;true'' = Some committed_state
         \<and> (\<exists>w2 w3. state_manager w' ''save'' = Inr w2
                \<and> session_file w2 = Some ''SA;SR;2800/1;7777000/1;N;N;true''
                \<and> state (w2\<lparr>state := default_state\<rparr>) = default_state
                \<and> state_manager (w2\<lparr>state := default_state\<rparr>) ''init'' = Inr w3
                \<and> access_token (state w3) = Some ''A''
                \<and> refresh_token (state w3) = Some ''R''
                \<and> access_token_expires_at (state w3) = 2800
                \<and> refresh_token_expires_at (state w3) = 7777000
                \<and> loggedin (state w3)))"
proof -
  let ?W = "demo_world\<lparr>json_dump := fields_dump, json_load := fields_load\<rparr>"
  have f: "tk_access_token demo_token_response = Some ''A''"
          "tk_refresh_token demo_token_response = Some ''R''"
          "tk_expires_in demo_token_response = Some 1800"
          "tk_refresh_token_expires_in demo_token_response = Some 7776000"
    by (simp_all add: demo_token_response_def)
  have c: "clock ?W (ticks ?W) = 1000" "clock ?W (Suc (ticks ?W)) = 1000"
    by (simp_all add: demo_world_def)
  from token_save_commits[OF f c] obtain w'
    where r: "token_save ?W (RJson demo_token_response) = Inr (True, w')"
      and rt: "cache_state (config w')
                \<and> json_load w' (json_dump w' (state w')) = Some (state w')
                \<longrightarrow> (\<exists>w2. state_manager w' ''save'' = Inr w2
                       \<and> session_file w2 = Some (json_dump w' (state w'))
                       \<and> (\<forall>s0. \<exists>w3. state_manager (w2\<lparr>state := s0\<rparr>) ''init'' = Inr w3
                                    \<and> state w3 = state w'))"
    by blast
  from r token_save_commit[OF f, of ?W]
  have w': "w' = ?W\<lparr>state := (state ?W)\<lparr>access_token := Some ''A'', refresh_token := Some ''R'',
                                      access_token_expires_at := clock ?W (ticks ?W) + of_int 1800,
                                      refresh_token_expires_at := clock ?W (Suc (ticks ?W)) + of_int 7776000,
                                      loggedin := True\<rparr>,
                  ticks := Suc (Suc (ticks ?W))\<rparr>"
    by simp
  have st: "state w' = committed_state"
    unfolding w' by (simp add: demo_world_def demo_state_def committed_state_def)
  have cs: "cache_state (config w')"
    unfolding w' by (simp add: demo_world_def default_config_def)
  have jd: "json_dump w' = fields_dump" and jl: "json_load w' = fields_load"
    unfolding w' by simp_all
  have dump: "json_dump w' (state w') = ''SA;SR;2800/1;7777000/1;N;N;true''"
    unfolding jd st by (rule fields_dump_committed)
  have load0: "json_load w' ''SA;SR;2800/1;7777000/1;N;N;true'' = Some committed_state"
    unfolding jl by (rule fields_load_committed)
  have load: "json_load w' (json_dump w' (state w')) = Some (state w')"
    unfolding dump unfolding st by (rule load0)
  from rt cs load obtain w2
    where sv: "state_manager w' ''save'' = Inr w2"
      and fl: "session_file w2 = Some (json_dump w' (state w'))"
      and ld: "\<forall>s0. \<exists>w3. state_manager (w2\<lparr>state := s0\<rparr>) ''init'' = Inr w3
                        \<and> state w3 = state w'"
    by blast
  from ld obtain w3
    where i3: "state_manager (w2\<lparr>state := default_state\<rparr>) ''init'' = Inr w3"
      and s3: "state w3 = committed_state"
    unfolding st by blast
  have v: "access_token (state w3) = Some ''A''" "refresh_token (state w3) = Some ''R''"
          "access_token_expires_at (state w3) = 2800"
          "refresh_token_expires_at (state w3) = 7777000" "loggedin (state w3)"
    unfolding s3 by (simp_all add: committed_state_def)
  have fl': "session_file w2 = Some ''SA;SR;2800/1;7777000/1;N;N;true''"
    using fl unfolding dump .
  have d0: "state (w2\<lparr>state := default_state\<rparr>) = default_state" by simp
  from sv fl' d0 i3 v have inner:
    "\<exists>w2 w3. state_manager w' ''save'' = Inr w2
                \<and> session_file w2 = Some ''SA;SR;2800/1;7777000/1;N;N;true''
                \<and> state (w2\<lparr>state := default_state\<rparr>) = default_state
                \<and> state_manager (w2\<lparr>state := default_state\<rparr>) ''init'' = Inr w3
                \<and> access_token (state w3) = Some ''A''
                \<and> refresh_token (state w3) = Some ''R''
                \<and> access_token_expires_at (state w3) = 2800
                \<and> refresh_token_expires_at (state w3) = 7777000
                \<and> loggedin (state w3)"
    by blast
  from f(1) c(1) r st cs dump load0 inner show ?thesis by blast
qed

text \<open>
  Claim C1 at a concrete client.  The client is logged in with access token \<open>OLD\<close>,
  caching is on and there is no state file.  A token response without
  \<open>access_token\<close> makes \<open>_token_save\<close> return \<open>False\<close>, but \<open>logout\<close> only prints
  that there is no file to load: the session still holds both tokens and \<open>loggedin\<close>
  is still true.  It is not the default state.
\<close>

theorem token_save_without_access_token_keeps_session:
  "token_save demo_world (RJson no_token_response) =
     Inr (False, demo_world\<lparr>out := [(''Their is no state file to load, will use default state.'', [])]\<rparr>)
 \<and> state (demo_world\<lparr>out := [(''Their is no state file to load, will use default state.'', [])]\<rparr>)
       = demo_state
 \<and> access_token demo_state = Some ''OLD''
 \<and> refresh_token demo_state = Some ''RT''
 \<and> loggedin demo_state
 \<and> demo_state \<noteq> default_state"
  by (simp add: token_save_no_access_token no_token_response_def logout_def
        state_manager_init_cases demo_world_def default_config_def print_def
        demo_state_def default_state_def)


section \<open>Properties of the request dispatcher\<close>

lemma split_on_no_occurrence:
  "\<not> sublist sep s \<Longrightarrow> split_on sep cur s = [cur @ s]"
proof (induction s arbitrary: cur)
  case Nil
  then show ?case by simp
next
  case (Cons c cs)
  from Cons.prems have np: "\<not> prefix sep (c # cs)" and ns: "\<not> sublist sep cs"
    by (simp_all add: sublist_Cons_right)
  from Cons.IH[OF ns, of "cur @ [c]"] np show ?case by simp
qed

lemma prefix_of_shorter:
  assumes "prefix a xs" and "prefix b xs" and "length a \<le> length b"
  shows "prefix a b"
  using assms by (metis prefix_length_prefix)

lemma split_on_first_occurrence:
  assumes "sep \<noteq> []" and "\<not> sublist sep (p @ butlast sep)"
  shows "split_on sep cur (p @ sep @ r) = (cur @ p) # split_on sep [] r"
  using assms(2)
proof (induction p arbitrary: cur)
  case Nil
  from assms(1) obtain a as where sep: "sep = a # as" by (cases sep) auto
  show ?case by (simp add: sep)
next
  case (Cons c p)
  from Cons.prems have np: "\<not> prefix sep (c # p @ butlast sep)"
    and ns: "\<not> sublist sep (p @ butlast sep)"
    by (simp_all add: sublist_Cons_right)
  have "\<not> prefix sep (c # p @ sep @ r)"
  proof
    assume a: "prefix sep (c # p @ sep @ r)"
    have "prefix (butlast sep) sep" by (simp add: prefixeq_butlast)
    then have "prefix (butlast sep) (sep @ r)" by (rule prefix_prefix)
    then have b: "prefix (c # p @ butlast sep) (c # p @ sep @ r)" by simp
    have l: "length sep \<le> length (c # p @ butlast sep)" using assms(1) by simp
    from prefix_of_shorter[OF a b l] np show False by simp
  qed
  with Cons.IH[OF ns, of "cur @ [c]"] show ?case by simp
qed

lemma grab_order_id_absent:
  "resp_headers r ''Location'' = None \<Longrightarrow> grab_order_id r = Inr ''''"
  by (simp add: grab_order_id_def)

lemma grab_order_id_second_piece:
  "resp_headers r ''Location'' = Some loc \<Longrightarrow> split_on ''orders/'' [] loc = a # b # pieces \<Longrightarrow>
   grab_order_id r = Inr b"
  by (simp add: grab_order_id_def str_split_def index1_def)

lemma grab_order_id_one_piece:
  "resp_headers r ''Location'' = Some loc \<Longrightarrow> split_on ''orders/'' [] loc = [a] \<Longrightarrow>
   grab_order_id r = Inl IndexError"
  by (simp add: grab_order_id_def str_split_def index1_def)

lemma grab_order_id_between:
  assumes loc: "resp_headers r ''Location'' = Some (p @ ''orders/'' @ m @ rest)"
      and first: "\<not> sublist ''orders/'' (p @ ''orders'')"
      and nxt: "(rest = [] \<and> \<not> sublist ''orders/'' m)
              \<or> (prefix ''orders/'' rest \<and> \<not> sublist ''orders/'' (m @ ''orders''))"
  shows "grab_order_id r = Inr m"
proof -
  have b: "butlast ''orders/'' = ''orders''" by simp
  have 1: "split_on ''orders/'' [] (p @ ''orders/'' @ m @ rest) = p # split_on ''orders/'' [] (m @ rest)"
    using split_on_first_occurrence[of "''orders/''" p "[]" "m @ rest"] first b by simp
  from nxt have "\<exists>pieces. split_on ''orders/'' [] (m @ rest) = m # pieces"
  proof
    assume "rest = [] \<and> \<not> sublist ''orders/'' m"
    then show ?thesis using split_on_no_occurrence[of "''orders/''" m "[]"] by simp
  next
    assume a: "prefix ''orders/'' rest \<and> \<not> sublist ''orders/'' (m @ ''orders'')"
    then obtain rest' where r: "rest = ''orders/'' @ rest'" by (auto simp: prefix_def)
    from a have "\<not> sublist ''orders/'' (m @ butlast ''orders/'')" by simp
    from split_on_first_occurrence[OF _ this, of "[]" rest'] show ?thesis
      unfolding r by simp
  qed
  then obtain pieces where 2: "split_on ''orders/'' [] (m @ rest) = m # pieces" ..
  have "split_on ''orders/'' [] (p @ ''orders/'' @ m @ rest) = p # m # pieces"
    by (simp only: 1 2)
  with loc show ?thesis by (rule grab_order_id_second_piece)
qed

lemma grab_order_id_no_orders:
  assumes "resp_headers r ''Location'' = Some loc" and "\<not> sublist ''orders/'' loc"
  shows "grab_order_id r = Inl IndexError"
proof -
  have "split_on ''orders/'' [] loc = [loc]"
    using assms(2) split_on_no_occurrence[of "''orders/''" loc "[]"] by simp
  with assms(1) show ?thesis by (rule grab_order_id_one_piece)
qed

lemma make_request_unfold:
  "make_request w method endpoint mode params data js order_details =
     (case before_request w endpoint mode of
        Inl e \<Rightarrow> Inl e
      | Inr (hs', w1) \<Rightarrow>
     (case handle_the_request w1 method (api_endpoint_url w endpoint None) hs' params data js of
        Inl e \<Rightarrow> Inl e
      | Inr (r, w2) \<Rightarrow>
     (case grab_order_id r of
        Inl e \<Rightarrow> Inl e
      | Inr oid \<Rightarrow> classify_response w2 r oid order_details)))"
  by (simp add: make_request.simps before_request_def Let_def)

lemma handle_the_request_reply:
  assumes "method \<in> {''get'', ''post'', ''put'', ''delete'', ''patch''}" and "replies w = r # rs"
  shows "handle_the_request w method url hs params data js =
           Inr (r, w\<lparr>replies := rs,
                     sent := sent w @ [\<lparr> req_method = method, req_url = url, req_headers = hs,
                                         req_params = params, req_data = data, req_json = js \<rparr>]\<rparr>)"
  using assms by (auto simp: handle_the_request_def requests_call_def Let_def)

lemma classify_ok_order:
  "status_code r = 200 \<or> status_code r = 201 \<Longrightarrow>
   classify_response w r oid True =
     Inr (ROrder \<lparr> order_id = oid, o_headers = resp_headers r,
                    o_content = resp_content r, o_status_code = status_code r,
                    o_request_body = request_body r,
                    o_request_method = request_method r \<rparr>, w)"
  by (auto simp: classify_response_def)

lemma make_request_order:
  assumes pre: "before_request w endpoint mode = Inr (hs, w1)"
      and rep: "replies w1 = r # rs"
      and meth: "method \<in> {''get'', ''post'', ''put'', ''delete'', ''patch''}"
      and ok: "status_code r = 200 \<or> status_code r = 201"
      and oid: "grab_order_id r = Inr oid"
  shows "make_request w method endpoint mode params data js True =
           Inr (ROrder \<lparr> order_id = oid, o_headers = resp_headers r,
                          o_content = resp_content r, o_status_code = status_code r,
                          o_request_body = request_body r,
                          o_request_method = request_method r \<rparr>,
                w1\<lparr>replies := rs,
                   sent := sent w1 @ [\<lparr> req_method = method,
                                        req_url = api_endpoint_url w endpoint None,
                                        req_headers = hs, req_params = params,
                                        req_data = data, req_json = js \<rparr>]\<rparr>)"
  unfolding make_request_unfold pre
  by (simp add: handle_the_request_reply[OF meth rep] oid classify_ok_order[OF ok])

text \<open>
  Claim C3, as the code has it.  A dispatch with order details asked for whose
  response has status 200 or 201 returns the order dictionary, and in it
  \<^item> the order identifier is the empty string when there is no \<open>Location\<close> header;
  \<^item> when the \<open>Location\<close> value contains \<open>orders/\<close>, the order identifier is the second
    piece of the split: the text \<open>m\<close> between the first \<open>orders/\<close> and the next
    \<open>orders/\<close>, or the end of the value when there is no further one (then it is all
    that follows the first \<open>orders/\<close>).
  The hypotheses say that the token check before the request went through
  (\<open>before_request\<close>), that the remote side replies with \<open>r\<close> and that the method is one of
  the five the dispatcher knows.
\<close>

theorem order_id_from_location:
  assumes pre: "before_request w endpoint mode = Inr (hs, w1)"
      and rep: "replies w1 = r # rs"
      and meth: "method \<in> {''get'', ''post'', ''put'', ''delete'', ''patch''}"
      and ok: "status_code r = 200 \<or> status_code r = 201"
  shows "(resp_headers r ''Location'' = None \<longrightarrow>
            (\<exists>ord w'. make_request w method endpoint mode params data js True = Inr (ROrder ord, w')
                \<and> order_id ord = ''''))
       \<and> (\<forall>p m rest.
            resp_headers r ''Location'' = Some (p @ ''orders/'' @ m @ rest)
            \<and> \<not> sublist ''orders/'' (p @ ''orders'')
            \<and> ((rest = [] \<and> \<not> sublist ''orders/'' m)
               \<or> (prefix ''orders/'' rest \<and> \<not> sublist ''orders/'' (m @ ''orders'')))
            \<longrightarrow> (\<exists>ord w'. make_request w method endpoint mode params data js True
                             = Inr (ROrder ord, w')
                    \<and> order_id ord = m))"
proof (intro conjI impI allI)
  assume "resp_headers r ''Location'' = None"
  then have "grab_order_id r = Inr ''''" by (rule grab_order_id_absent)
  from make_request_order[OF pre rep meth ok this]
  show "\<exists>ord w'. make_request w method endpoint mode params data js True = Inr (ROrder ord, w')
                \<and> order_id ord = ''''"
    by simp
next
  fix p m rest
  assume a: "resp_headers r ''Location'' = Some (p @ ''orders/'' @ m @ rest)
            \<and> \<not> sublist ''orders/'' (p @ ''orders'')
            \<and> ((rest = [] \<and> \<not> sublist ''orders/'' m)
               \<or> (prefix ''orders/'' rest \<and> \<not> sublist ''orders/'' (m @ ''orders'')))"
  then have "grab_order_id r = Inr m"
    using grab_order_id_between[of r p m rest] by blast
  from make_request_order[OF pre rep meth ok this]
  show "\<exists>ord w'. make_request w method endpoint mode params data js True = Inr (ROrder ord, w')
                \<and> order_id ord = m"
    by simp
qed

lemma demo_token_seconds:
  "token_seconds (demo_world\<lparr>replies := rs\<rparr>) ''access_token'' =
     Inr (4000, demo_world\<lparr>replies := rs, ticks := 2\<rparr>)"
proof -
  have f: "\<lfloor>8001 / 2 :: rat\<rfloor> = 4000" by (rule floor_unique) simp_all
  have p: "py_int (8001 / 2) = 4000" unfolding py_int_def using f by simp
  show ?thesis
    unfolding token_seconds_access
    by (simp add: demo_world_def demo_state_def truthy_def p)
qed

lemma demo_before_request:
  assumes "endpoint \<noteq> ''oauth2/token''"
  shows "before_request (demo_world\<lparr>replies := rs\<rparr>) endpoint None =
     Inr ([(''Authorization'', ''Bearer OLD'')], demo_world\<lparr>replies := rs, ticks := 2\<rparr>)"
proof -
  have te: "token_endpoint (config (demo_world\<lparr>replies := rs\<rparr>)) = ''oauth2/token''"
    by (simp add: demo_world_def default_config_def)
  have tv: "token_validation (demo_world\<lparr>replies := rs\<rparr>) 5 = Inr (demo_world\<lparr>replies := rs, ticks := 2\<rparr>)"
    by (simp add: token_validation.simps demo_token_seconds)
  have h: "headers (demo_world\<lparr>replies := rs\<rparr>) None = [(''Authorization'', ''Bearer OLD'')]"
    by (simp add: headers_def demo_world_def demo_state_def)
  show ?thesis unfolding before_request_def te using assms by (simp add: tv h)
qed

theorem order_id_from_location_witness:
  "status_code (order_reply 200 None) = 200
 \<and> ''delete'' \<in> {''get'', ''post'', ''put'', ''delete'', ''patch''}
 \<and> (\<exists>ord w'. make_request (demo_world\<lparr>replies := [order_reply 200 None]\<rparr>)
                  ''delete'' ''accounts/ACCT123/orders/555'' None None None None True
                = Inr (ROrder ord, w')
        \<and> order_id ord = '''')
 \<and> (\<exists>ord w'. make_request
                  (demo_world\<lparr>replies := [order_reply 200
                     (Some ''https://api.tdameritrade.com/v1/accounts/ACCT123/orders/555'')]\<rparr>)
                  ''delete'' ''accounts/ACCT123/orders/555'' None None None None True
                = Inr (ROrder ord, w')
        \<and> order_id ord = ''555'')"
proof -
  let ?ep = "''accounts/ACCT123/orders/555''"
  let ?L = "''https://api.tdameritrade.com/v1/accounts/ACCT123/orders/555''"
  have ne: "?ep \<noteq> ''oauth2/token''" by simp
  have m: "''delete'' \<in> {''get'', ''post'', ''put'', ''delete'', ''patch''}" by simp
  have s0: "status_code (order_reply 200 None) = 200 \<or> status_code (order_reply 200 None) = 201"
    and s1: "status_code (order_reply 200 (Some ?L)) = 200 \<or> status_code (order_reply 200 (Some ?L)) = 201"
    by (simp_all add: order_reply_def)
  have r0: "replies (demo_world\<lparr>replies := [order_reply 200 None], ticks := 2\<rparr>) = [order_reply 200 None]"
    and r1: "replies (demo_world\<lparr>replies := [order_reply 200 (Some ?L)], ticks := 2\<rparr>) = [order_reply 200 (Some ?L)]"
    by simp_all
  have h0: "resp_headers (order_reply 200 None) ''Location'' = None"
    by (simp add: order_reply_def)
  have h1: "resp_headers (order_reply 200 (Some ?L)) ''Location''
              = Some (''https://api.tdameritrade.com/v1/accounts/ACCT123/'' @ ''orders/'' @ ''555'' @ [])"
    by (simp add: order_reply_def)
  have n1: "\<not> sublist ''orders/'' (''https://api.tdameritrade.com/v1/accounts/ACCT123/'' @ ''orders'')"
    by code_simp
  have n2: "\<not> sublist ''orders/'' ''555''" by code_simp
  from order_id_from_location[OF demo_before_request[OF ne] r0 m s0, of None None None] h0
  have a: "\<exists>ord w'. make_request (demo_world\<lparr>replies := [order_reply 200 None]\<rparr>)
                  ''delete'' ?ep None None None None True = Inr (ROrder ord, w')
        \<and> order_id ord = ''''"
    by blast
  from order_id_from_location[OF demo_before_request[OF ne] r1 m s1, of None None None] h1 n1 n2
  have b: "\<exists>ord w'. make_request (demo_world\<lparr>replies := [order_reply 200 (Some ?L)]\<rparr>)
                  ''delete'' ?ep None None None None True = Inr (ROrder ord, w')
        \<and> order_id ord = ''555''"
    by blast
  from a b m show ?thesis by (simp add: order_reply_def)
qed

lemma demo_make_request:
  assumes "endpoint \<noteq> ''oauth2/token''"
      and "method \<in> {''get'', ''post'', ''put'', ''delete'', ''patch''}"
  shows "make_request (demo_world\<lparr>replies := [r]\<rparr>) method endpoint None None None None od =
           (case grab_order_id r of
              Inl e \<Rightarrow> Inl e
            | Inr oid \<Rightarrow>
                classify_response
                  (demo_world\<lparr>replies := [], ticks := 2,
                     sent := [\<lparr> req_method = method,
                                req_url = api_endpoint_url (demo_world\<lparr>replies := [r]\<rparr>) endpoint None,
                                req_headers = [(''Authorization'', ''Bearer OLD'')],
                                req_params = None, req_data = None, req_json = None \<rparr>]\<rparr>)
                  r oid od)"
proof -
  have rep: "replies (demo_world\<lparr>replies := [r], ticks := 2\<rparr>) = [r]" by simp
  have hr: "handle_the_request (demo_world\<lparr>replies := [r], ticks := 2\<rparr>) method url hs
              None None None =
            Inr (r, demo_world\<lparr>replies := [], ticks := 2,
                     sent := [\<lparr> req_method = method, req_url = url, req_headers = hs,
                                req_params = None, req_data = None, req_json = None \<rparr>]\<rparr>)"
    for url hs
    using handle_the_request_reply[OF assms(2) rep, of url hs None None None]
    by (simp add: demo_world_def)
  show ?thesis
    unfolding make_request_unfold demo_before_request[OF assms(1)]
    by (simp add: hr)
qed

text \<open>
  Claim C3 as stated fails on two \<open>Location\<close> values, both on a \<open>DELETE\<close> of
  \<open>accounts/ACCT123/orders/555\<close> answered with status 200.  For
  \<open>.../orders/1/orders/2\<close> the identifier returned is \<open>1/\<close>, the piece up to the next
  \<open>orders/\<close>, not the remainder \<open>1/orders/2\<close> of the value.  For a value without
  \<open>orders/\<close> the split has one piece and the dispatcher raises \<open>IndexError\<close>; no
  identifier is returned.
\<close>

theorem order_id_from_location_counterexample:
  "result_of (make_request
       (demo_world\<lparr>replies := [order_reply 200
          (Some ''https://api.tdameritrade.com/v1/accounts/ACCT123/orders/1/orders/2'')]\<rparr>)
       ''delete'' ''accounts/ACCT123/orders/555'' None None None None True)
     = Inr (ROrder \<lparr> order_id = ''1/'',
                     o_headers = [''Location'' \<mapsto>
                        ''https://api.tdameritrade.com/v1/accounts/ACCT123/orders/1/orders/2''],
                     o_content = '''', o_status_code = 200, o_request_body = None,
                     o_request_method = ''DELETE'' \<rparr>)
 \<and> ''1/'' \<noteq> ''1/orders/2''
 \<and> result_of (make_request
       (demo_world\<lparr>replies := [order_reply 200
          (Some ''https://api.tdameritrade.com/v1/accounts/ACCT123'')]\<rparr>)
       ''delete'' ''accounts/ACCT123/orders/555'' None None None None True)
     = Inl IndexError"
proof -
  have e1: "grab_order_id (order_reply 200
        (Some ''https://api.tdameritrade.com/v1/accounts/ACCT123/orders/1/orders/2'')) = Inr ''1/''"
    by (simp add: grab_order_id_def order_reply_def str_split_def index1_def)
  have e2: "grab_order_id (order_reply 200
        (Some ''https://api.tdameritrade.com/v1/accounts/ACCT123'')) = Inl IndexError"
    by (simp add: grab_order_id_def order_reply_def str_split_def index1_def)
  have ne: "''accounts/ACCT123/orders/555'' \<noteq> ''oauth2/token''" by simp
  have m: "''delete'' \<in> {''get'', ''post'', ''put'', ''delete'', ''patch''}" by simp
  show ?thesis
    unfolding demo_make_request[OF ne m] e1 e2
    by (simp add: result_of_def classify_response_def order_reply_def)
qed

text \<open>
  Claim C8 at a concrete response.  The reply has status 401 and a \<open>Location\<close> header
  without \<open>orders/\<close>.  The order identifier is taken from the header before the status
  code is looked at, so the dispatcher raises \<open>IndexError\<close>: nothing is printed and
  nothing is returned.
\<close>

theorem bad_status_with_location_raises:
  "result_of (make_request
       (demo_world\<lparr>replies := [order_reply 401 (Some ''https://auth.tdameritrade.com/auth'')]\<rparr>)
       ''get'' ''marketdata/quotes'' None None None None False)
     = Inl IndexError"
proof -
  have e: "grab_order_id (order_reply 401 (Some ''https://auth.tdameritrade.com/auth''))
             = Inl IndexError"
    by (simp add: grab_order_id_def order_reply_def str_split_def index1_def)
  have ne: "''marketdata/quotes'' \<noteq> ''oauth2/token''" by simp
  have m: "''get'' \<in> {''get'', ''post'', ''put'', ''delete'', ''patch''}" by simp
  show ?thesis
    unfolding demo_make_request[OF ne m] e by (simp add: result_of_def)
qed

text \<open>
  When the order identifier can be taken (no \<open>Location\<close> header, or one with
  \<open>orders/\<close>), a reply with status 400, 401, 403, 415 or 500 makes the dispatcher print
  the seven diagnostic lines and return \<open>None\<close>; exactly one request was sent.
\<close>

lemma classify_bad_status:
  "status_code r \<in> {401, 400, 403, 415, 500} \<Longrightarrow>
   classify_response w r oid od =
     Inr (RNone,
          w\<lparr>out := out w @
               [(replicate 80 CHR ''-'', []),
                (''BAD REQUEST - STATUS CODE: {}'', [FInt (status_code r)]),
                (''RESPONSE URL: {}'', [FStr (resp_url r)]),
                (''RESPONSE HEADERS: {}'', [FHeaders (resp_headers r)]),
                (''RESPONSE PARAMS: {}'', [FLinks (resp_links r)]),
                (''RESPONSE TEXT: {}'', [FStr (resp_text r)]),
                (replicate 80 CHR ''-'', [])]\<rparr>)"
  by (auto simp: classify_response_def print_def)

lemma make_request_bad_status:
  assumes pre: "before_request w endpoint mode = Inr (hs, w1)"
      and rep: "replies w1 = r # rs"
      and meth: "method \<in> {''get'', ''post'', ''put'', ''delete'', ''patch''}"
      and bad: "status_code r \<in> {401, 400, 403, 415, 500}"
      and oid: "grab_order_id r = Inr oid"
  shows "make_request w method endpoint mode params data js od =
           Inr (RNone,
                w1\<lparr>replies := rs,
                   sent := sent w1 @ [\<lparr> req_method = method,
                                        req_url = api_endpoint_url w endpoint None,
                                        req_headers = hs, req_params = params,
                                        req_data = data, req_json = js \<rparr>],
                   out := out w1 @
                     [(replicate 80 CHR ''-'', []),
                      (''BAD REQUEST - STATUS CODE: {}'', [FInt (status_code r)]),
                      (''RESPONSE URL: {}'', [FStr (resp_url r)]),
                      (''RESPONSE HEADERS: {}'', [FHeaders (resp_headers r)]),
                      (''RESPONSE PARAMS: {}'', [FLinks (resp_links r)]),
                      (''RESPONSE TEXT: {}'', [FStr (resp_text r)]),
                      (replicate 80 CHR ''-'', [])]\<rparr>)"
  unfolding make_request_unfold pre
  by (simp add: handle_the_request_reply[OF meth rep] oid classify_bad_status[OF bad])


section \<open>Properties of refresh and silent authentication\<close>

lemma grab_refresh_token_True:
  "grab_refresh_token w = Inr (b, w') \<Longrightarrow> b"
  by (auto simp: grab_refresh_token.simps Let_def split: sum.splits prod.splits)

lemma token_seconds_frame:
  assumes "token_seconds w kind = Inr (n, w')"
  shows "state w' = state w \<and> sent w' = sent w \<and> replies w' = replies w \<and> config w' = config w"
  using assms
  by (auto simp: token_seconds_def time_time_def Let_def split: if_splits)

lemma token_save_frame:
  assumes "token_save w t = Inr (b, w')"
  shows "sent w' = sent w \<and> replies w' = replies w"
  using assms
  by (auto simp: token_save_def logout_def state_manager_init_cases print_def time_time_def Let_def
           split: ret.splits option.splits sum.splits if_splits)

lemma state_manager_frame:
  assumes "state_manager w a = Inr w'"
  shows "sent w' = sent w \<and> replies w' = replies w"
  using assms
  by (auto simp: state_manager_def print_def split: if_splits option.splits)

lemma classify_frame:
  assumes "classify_response w r oid od = Inr (res, w')"
  shows "sent w' = sent w \<and> replies w' = replies w"
  using assms
  by (auto simp: classify_response_def print_def split: if_splits option.splits)

lemma before_request_token_endpoint:
  "before_request w (token_endpoint (config w)) mode =
     Inr (AList.delete ''Authorization'' (headers w mode), w)"
  by (simp add: before_request_def)

lemma handle_post:
  "handle_the_request w ''post'' url hs params data js =
     (case replies w of
        [] \<Rightarrow> Inl ConnectionError
      | r # rs \<Rightarrow>
          Inr (r, w\<lparr>replies := rs,
                    sent := sent w @ [\<lparr> req_method = ''post'', req_url = url, req_headers = hs,
                                        req_params = params, req_data = data, req_json = js \<rparr>]\<rparr>))"
  by (simp add: handle_the_request_def requests_call_def Let_def)

lemma grab_refresh_token_sends:
  assumes "grab_refresh_token w = Inr (b, w')"
  shows "sent w' = sent w @
           [\<lparr> req_method = ''post'',
              req_url = api_endpoint_url w (token_endpoint (config w)) None,
              req_headers = AList.delete ''Authorization'' (headers w (Some ''form'')),
              req_params = None,
              req_data = Some (Form [(''client_id'', Some (client_id w)),
                                     (''grant_type'', Some ''refresh_token''),
                                     (''access_type'', Some ''offline''),
                                     (''refresh_token'', refresh_token (state w))]),
              req_json = None \<rparr>]"
proof -
  let ?data = "Some (Form [(''client_id'', Some (client_id w)),
                                     (''grant_type'', Some ''refresh_token''),
                                     (''access_type'', Some ''offline''),
                                     (''refresh_token'', refresh_token (state w))])"
  let ?rq = "\<lparr> req_method = ''post'',
              req_url = api_endpoint_url w (token_endpoint (config w)) None,
              req_headers = AList.delete ''Authorization'' (headers w (Some ''form'')),
              req_params = None, req_data = ?data, req_json = None \<rparr>"
  from assms obtain tr w1 where
    mr: "make_request w ''post'' (token_endpoint (config w)) (Some ''form'') None ?data None False
           = Inr (tr, w1)"
    by (auto simp: grab_refresh_token.simps Let_def split: sum.splits prod.splits)
  from assms mr obtain b2 w2 where ts: "token_save w1 tr = Inr (b2, w2)"
    by (auto simp: grab_refresh_token.simps Let_def split: sum.splits prod.splits)
  from assms mr ts have sm: "state_manager w2 ''save'' = Inr w'"
    by (auto simp: grab_refresh_token.simps Let_def split: sum.splits prod.splits)
  from mr obtain r rs oid where rep: "replies w = r # rs"
    and cl: "classify_response (w\<lparr>replies := rs, sent := sent w @ [?rq]\<rparr>) r oid False = Inr (tr, w1)"
    unfolding make_request_unfold before_request_token_endpoint
    by (auto simp: handle_post split: list.splits sum.splits)
  from classify_frame[OF cl] token_save_frame[OF ts] state_manager_frame[OF sm]
  show ?thesis by simp
qed

lemma grab_order_id_token_reply: "grab_order_id (token_reply td) = Inr ''''"
  by (simp add: grab_order_id_def token_reply_def)

lemma classify_token_reply:
  "classify_response w (token_reply td) oid False = Inr (RJson td, w)"
  by (simp add: classify_response_def token_reply_def)

lemma make_request_token_reply:
  assumes "replies w = token_reply td # rs"
  shows "make_request w ''post'' (token_endpoint (config w)) mode params data js False =
           Inr (RJson td,
                w\<lparr>replies := rs,
                  sent := sent w @
                    [\<lparr> req_method = ''post'',
                       req_url = api_endpoint_url w (token_endpoint (config w)) None,
                       req_headers = AList.delete ''Authorization'' (headers w mode),
                       req_params = params, req_data = data, req_json = js \<rparr>]\<rparr>)"
  unfolding make_request_unfold before_request_token_endpoint
  by (simp add: handle_post assms grab_order_id_token_reply classify_token_reply)

lemma grab_refresh_token_no_access_token:
  assumes rep: "replies w = token_reply td # rs"
      and no: "tk_access_token td = None"
      and cache: "cache_state (config w)"
      and nofile: "session_file w = None"
  shows "\<exists>w'. grab_refresh_token w = Inr (True, w') \<and> state w' = state w"
proof -
  let ?data = "Some (Form [(''client_id'', Some (client_id w)),
                                     (''grant_type'', Some ''refresh_token''),
                                     (''access_type'', Some ''offline''),
                                     (''refresh_token'', refresh_token (state w))])"
  let ?w1 = "w\<lparr>replies := rs,
                  sent := sent w @
                    [\<lparr> req_method = ''post'',
                       req_url = api_endpoint_url w (token_endpoint (config w)) None,
                       req_headers = AList.delete ''Authorization'' (headers w (Some ''form'')),
                       req_params = None, req_data = ?data, req_json = None \<rparr>]\<rparr>"
  have mr: "make_request w ''post'' (token_endpoint (config w)) (Some ''form'') None ?data None False
              = Inr (RJson td, ?w1)"
    using rep by (rule make_request_token_reply)
  let ?w2 = "print (''Their is no state file to load, will use default state.'', []) ?w1"
  have lo: "logout ?w1 = Inr ?w2"
    unfolding logout_def state_manager_init_cases using cache nofile by simp
  have ts: "token_save ?w1 (RJson td) = Inr (False, ?w2)"
    unfolding token_save_no_access_token[OF no] lo by simp
  have c2: "cache_state (config ?w2)" using cache by (simp add: print_def)
  have sm: "state_manager ?w2 ''save'' = Inr (?w2\<lparr>session_file := Some (json_dump ?w2 (state ?w2))\<rparr>)"
    using c2 by (rule state_manager_save)
  have "grab_refresh_token w = Inr (True, ?w2\<lparr>session_file := Some (json_dump ?w2 (state ?w2))\<rparr>)"
    unfolding grab_refresh_token.simps Let_def mr by (simp add: ts sm)
  moreover have "state (?w2\<lparr>session_file := Some (json_dump ?w2 (state ?w2))\<rparr>) = state w"
    by (simp add: print_def)
  ultimately show ?thesis by blast
qed

lemma grab_refresh_token_commit:
  assumes rep: "replies w = token_reply td # rs"
      and f: "tk_access_token td = Some A" "tk_refresh_token td = Some R"
             "tk_expires_in td = Some e" "tk_refresh_token_expires_in td = Some r"
  shows "\<exists>w'. grab_refresh_token w = Inr (True, w')
           \<and> access_token (state w') = Some A \<and> refresh_token (state w') = Some R
           \<and> loggedin (state w')"
proof -
  let ?data = "Some (Form [(''client_id'', Some (client_id w)),
                                     (''grant_type'', Some ''refresh_token''),
                                     (''access_type'', Some ''offline''),
                                     (''refresh_token'', refresh_token (state w))])"
  let ?w1 = "w\<lparr>replies := rs,
                  sent := sent w @
                    [\<lparr> req_method = ''post'',
                       req_url = api_endpoint_url w (token_endpoint (config w)) None,
                       req_headers = AList.delete ''Authorization'' (headers w (Some ''form'')),
                       req_params = None, req_data = ?data, req_json = None \<rparr>]\<rparr>"
  have mr: "make_request w ''post'' (token_endpoint (config w)) (Some ''form'') None ?data None False
              = Inr (RJson td, ?w1)"
    using rep by (rule make_request_token_reply)
  obtain w2 where ts: "token_save ?w1 (RJson td) = Inr (True, w2)"
    and st: "access_token (state w2) = Some A" "refresh_token (state w2) = Some R" "loggedin (state w2)"
    using token_save_commit[OF f, of ?w1] by simp
  obtain w3 where sm: "state_manager w2 ''save'' = Inr w3" and s3: "state w3 = state w2"
    by (cases "cache_state (config w2)") (simp_all add: state_manager_save state_manager_save_off)
  have "grab_refresh_token w = Inr (True, w3)"
    unfolding grab_refresh_token.simps Let_def mr by (simp add: ts sm)
  with st s3 show ?thesis by simp
qed

text \<open>
  When the token endpoint answers the refresh with an error status, \<open>_make_request\<close>
  returns \<open>None\<close> and \<open>_token_save\<close> raises on it.
\<close>

lemma grab_refresh_token_bad_status_raises:
  assumes rep: "replies w = r # rs"
      and bad: "status_code r \<in> {401, 400, 403, 415, 500}"
      and noloc: "resp_headers r ''Location'' = None"
  shows "grab_refresh_token w = Inl TypeError"
proof -
  have m: "''post'' \<in> {''get'', ''post'', ''put'', ''delete'', ''patch''}" by simp
  have oid: "grab_order_id r = Inr ''''" using noloc by (rule grab_order_id_absent)
  note mr = make_request_bad_status[OF before_request_token_endpoint rep m bad oid]
  show ?thesis
    unfolding grab_refresh_token.simps Let_def mr by (simp add: token_save_None)
qed

text \<open>A refresh token with seconds left is a refresh token that is there.\<close>

lemma refresh_seconds_positive:
  assumes "token_seconds w ''refresh_token'' = Inr (m, w')" and "m > 0"
  shows "truthy (refresh_token (state w'))"
  using assms unfolding token_seconds_refresh by (auto split: if_splits)

text \<open>
  Claim C6.  \<open>_silent_sso\<close> on any client:
  \<^item> when the access token has more than 0 seconds left, it returns \<open>True\<close> and no
    request is sent (\<open>sent\<close> and \<open>replies\<close> are as before);
  \<^item> when the access token has none left and the refresh token has none left either,
    it returns \<open>False\<close> and no request is sent;
  \<^item> when the access token has none left and the refresh token has some: with a
    refresh token present the outcome is that of \<open>grab_refresh_token\<close>, which sends
    one request when it returns; without one it returns \<open>False\<close> and no request is sent.
\<close>

theorem silent_sso_cases:
  "(\<forall>n w1. token_seconds w ''access_token'' = Inr (n, w1) \<and> n > 0
       \<longrightarrow> silent_sso w = Inr (True, w1) \<and> sent w1 = sent w \<and> replies w1 = replies w)
 \<and> (\<forall>n w1 m w2. token_seconds w ''access_token'' = Inr (n, w1) \<and> n \<le> 0
       \<and> token_seconds w1 ''refresh_token'' = Inr (m, w2) \<and> m \<le> 0
       \<longrightarrow> silent_sso w = Inr (False, w2) \<and> sent w2 = sent w \<and> replies w2 = replies w)
 \<and> (\<forall>n w1 m w2. token_seconds w ''access_token'' = Inr (n, w1) \<and> n \<le> 0
       \<and> token_seconds w1 ''refresh_token'' = Inr (m, w2) \<and> m > 0
       \<longrightarrow> (truthy (refresh_token (state w2))
              \<longrightarrow> silent_sso w = grab_refresh_token w2
                \<and> (\<forall>ok w3. grab_refresh_token w2 = Inr (ok, w3) \<longrightarrow> length (sent w3) = Suc (length (sent w))))
          \<and> (\<not> truthy (refresh_token (state w2))
              \<longrightarrow> silent_sso w = Inr (False, w2) \<and> sent w2 = sent w \<and> replies w2 = replies w))"
proof (intro conjI allI impI)
  fix n w1
  assume a: "token_seconds w ''access_token'' = Inr (n, w1) \<and> n > 0"
  then show "silent_sso w = Inr (True, w1)" by (simp add: silent_sso_def)
  from a token_seconds_frame[of w "''access_token''" n w1]
  show "sent w1 = sent w" "replies w1 = replies w" by simp_all
next
  fix n w1 m w2
  assume a: "token_seconds w ''access_token'' = Inr (n, w1) \<and> n \<le> 0
       \<and> token_seconds w1 ''refresh_token'' = Inr (m, w2) \<and> m \<le> 0"
  then show "silent_sso w = Inr (False, w2)" by (simp add: silent_sso_def)
  from a token_seconds_frame[of w "''access_token''" n w1]
         token_seconds_frame[of w1 "''refresh_token''" m w2]
  show "sent w2 = sent w" "replies w2 = replies w" by simp_all
next
  fix n w1 m w2
  assume a: "token_seconds w ''access_token'' = Inr (n, w1) \<and> n \<le> 0
       \<and> token_seconds w1 ''refresh_token'' = Inr (m, w2) \<and> m > 0"
  assume t: "truthy (refresh_token (state w2))"
  have "silent_sso w = (case grab_refresh_token w2 of Inl e \<Rightarrow> Inl e
                        | Inr (ok, w3) \<Rightarrow> if ok then Inr (True, w3) else Inr (False, w3))"
    using a t by (simp add: silent_sso_def)
  also have "\<dots> = grab_refresh_token w2"
    by (auto split: sum.splits)
  finally show "silent_sso w = grab_refresh_token w2" .
next
  fix n w1 m w2 ok w3
  assume a: "token_seconds w ''access_token'' = Inr (n, w1) \<and> n \<le> 0
       \<and> token_seconds w1 ''refresh_token'' = Inr (m, w2) \<and> m > 0"
  assume g: "grab_refresh_token w2 = Inr (ok, w3)"
  from a token_seconds_frame[of w "''access_token''" n w1]
         token_seconds_frame[of w1 "''refresh_token''" m w2]
  have "sent w2 = sent w" by simp
  with grab_refresh_token_sends[OF g] show "length (sent w3) = Suc (length (sent w))" by simp
next
  fix n w1 m w2
  assume a: "token_seconds w ''access_token'' = Inr (n, w1) \<and> n \<le> 0
       \<and> token_seconds w1 ''refresh_token'' = Inr (m, w2) \<and> m > 0"
  assume t: "\<not> truthy (refresh_token (state w2))"
  from a t show "silent_sso w = Inr (False, w2)" by (simp add: silent_sso_def)
  from a token_seconds_frame[of w "''access_token''" n w1]
         token_seconds_frame[of w1 "''refresh_token''" m w2]
  show "sent w2 = sent w" "replies w2 = replies w" by simp_all
qed

theorem silent_sso_cases_witness:
  "(token_seconds demo_world ''access_token'' = Inr (4000, demo_world\<lparr>ticks := 2\<rparr>)
    \<and> silent_sso demo_world = Inr (True, demo_world\<lparr>ticks := 2\<rparr>)
    \<and> sent (demo_world\<lparr>ticks := 2\<rparr>) = sent demo_world)
 \<and> (token_seconds
       (demo_world\<lparr>state := demo_state\<lparr>access_token_expires_at := 500,
                                         refresh_token_expires_at := 900\<rparr>\<rparr>) ''access_token''
      = Inr (0, demo_world\<lparr>state := demo_state\<lparr>access_token_expires_at := 500,
                                                refresh_token_expires_at := 900\<rparr>, ticks := 1\<rparr>)
    \<and> silent_sso
       (demo_world\<lparr>state := demo_state\<lparr>access_token_expires_at := 500,
                                         refresh_token_expires_at := 900\<rparr>\<rparr>)
      = Inr (False, demo_world\<lparr>state := demo_state\<lparr>access_token_expires_at := 500,
                                                    refresh_token_expires_at := 900\<rparr>, ticks := 2\<rparr>))
 \<and> (token_seconds
       (demo_world\<lparr>state := demo_state\<lparr>access_token_expires_at := 500\<rparr>,
                   replies := [token_reply demo_token_response]\<rparr>) ''access_token''
      = Inr (0, demo_world\<lparr>state := demo_state\<lparr>access_token_expires_at := 500\<rparr>,
                           replies := [token_reply demo_token_response], ticks := 1\<rparr>)
    \<and> (\<exists>w3. silent_sso
              (demo_world\<lparr>state := demo_state\<lparr>access_token_expires_at := 500\<rparr>,
                          replies := [token_reply demo_token_response]\<rparr>)
             = Inr (True, w3)
           \<and> length (sent w3) = 1))"
proof -
  let ?Wb = "demo_world\<lparr>state := demo_state\<lparr>access_token_expires_at := 500,
                                         refresh_token_expires_at := 900\<rparr>\<rparr>"
  let ?Wc = "demo_world\<lparr>state := demo_state\<lparr>access_token_expires_at := 500\<rparr>,
                   replies := [token_reply demo_token_response]\<rparr>"
  have f: "\<lfloor>8001 / 2 :: rat\<rfloor> = 4000" by (rule floor_unique) simp_all
  have p: "py_int (8001 / 2) = 4000" unfolding py_int_def using f by simp
  have a1: "token_seconds demo_world ''access_token'' = Inr (4000, demo_world\<lparr>ticks := 2\<rparr>)"
    unfolding token_seconds_access by (simp add: demo_world_def demo_state_def truthy_def p)
  from silent_sso_cases[of demo_world] a1
  have a: "silent_sso demo_world = Inr (True, demo_world\<lparr>ticks := 2\<rparr>)
           \<and> sent (demo_world\<lparr>ticks := 2\<rparr>) = sent demo_world"
    by simp
  have b1: "token_seconds ?Wb ''access_token'' = Inr (0, ?Wb\<lparr>ticks := 1\<rparr>)"
    unfolding token_seconds_access by (simp add: demo_world_def demo_state_def truthy_def)
  have b2: "token_seconds (?Wb\<lparr>ticks := 1\<rparr>) ''refresh_token'' = Inr (0, ?Wb\<lparr>ticks := 2\<rparr>)"
    unfolding token_seconds_refresh by (simp add: demo_world_def demo_state_def truthy_def)
  from silent_sso_cases[of ?Wb] b1 b2
  have b: "silent_sso ?Wb = Inr (False, ?Wb\<lparr>ticks := 2\<rparr>)"
    by simp
  have c1: "token_seconds ?Wc ''access_token'' = Inr (0, ?Wc\<lparr>ticks := 1\<rparr>)"
    unfolding token_seconds_access by (simp add: demo_world_def demo_state_def truthy_def)
  have c2: "token_seconds (?Wc\<lparr>ticks := 1\<rparr>) ''refresh_token'' = Inr (8000, ?Wc\<lparr>ticks := 3\<rparr>)"
    unfolding token_seconds_refresh
    by (simp add: demo_world_def demo_state_def truthy_def py_int_def)
  have t: "truthy (refresh_token (state (?Wc\<lparr>ticks := 3\<rparr>)))"
    by (simp add: demo_state_def truthy_def)
  have rep: "replies (?Wc\<lparr>ticks := 3\<rparr>) = token_reply demo_token_response # []" by simp
  have fl: "tk_access_token demo_token_response = Some ''A''"
          "tk_refresh_token demo_token_response = Some ''R''"
          "tk_expires_in demo_token_response = Some 1800"
          "tk_refresh_token_expires_in demo_token_response = Some 7776000"
    by (simp_all add: demo_token_response_def)
  from grab_refresh_token_commit[OF rep fl] obtain w3
    where g: "grab_refresh_token (?Wc\<lparr>ticks := 3\<rparr>) = Inr (True, w3)" by blast
  from silent_sso_cases[of ?Wc] c1 c2 t g
  have c: "silent_sso ?Wc = Inr (True, w3) \<and> length (sent w3) = Suc (length (sent ?Wc))"
    by auto
  have "sent ?Wc = []" by (simp add: demo_world_def)
  with c have c': "\<exists>w3. silent_sso ?Wc = Inr (True, w3) \<and> length (sent w3) = 1" by auto
  from a1 a b1 b c1 c' show ?thesis by simp
qed

text \<open>
  Claim C2 at a concrete client.  The token endpoint answers the refresh with a JSON
  object that has no \<open>access_token\<close>: \<open>_make_request\<close> hands that object to
  \<open>_token_save\<close>, which returns \<open>False\<close>, and \<open>grab_refresh_token\<close> drops that result and
  returns \<open>True\<close>.
\<close>

theorem grab_refresh_token_reports_true:
  "result_of (make_request (demo_world\<lparr>replies := [token_reply no_token_response]\<rparr>)
                ''post'' ''oauth2/token'' (Some ''form'') None None None False)
     = Inr (RJson no_token_response)
 \<and> tk_access_token no_token_response = None
 \<and> result_of (grab_refresh_token (demo_world\<lparr>replies := [token_reply no_token_response]\<rparr>))
     = Inr True"
proof -
  let ?W = "demo_world\<lparr>replies := [token_reply no_token_response]\<rparr>"
  have rep: "replies ?W = token_reply no_token_response # []" by simp
  have te: "token_endpoint (config ?W) = ''oauth2/token''"
    by (simp add: demo_world_def default_config_def)
  have no: "tk_access_token no_token_response = None" by (simp add: no_token_response_def)
  have cache: "cache_state (config ?W)" by (simp add: demo_world_def default_config_def)
  have nofile: "session_file ?W = None" by (simp add: demo_world_def)
  from make_request_token_reply[OF rep, of "Some ''form''" None None None]
  have 1: "result_of (make_request ?W ''post'' ''oauth2/token'' (Some ''form'') None None None False)
             = Inr (RJson no_token_response)"
    unfolding te by (simp add: result_of_def)
  from grab_refresh_token_no_access_token[OF rep no cache nofile]
  have 2: "result_of (grab_refresh_token ?W) = Inr True"
    by (auto simp: result_of_def)
  from 1 no 2 show ?thesis by simp
qed

end
